theory Spec2Isabelle
  imports Main "HOL-Library.Word" "HOL-Library.Monad_Syntax"
begin

unbundle bit_operations_syntax

section \<open>Data model (linenoise.h)\<close>

text \<open>
  \<^verbatim>\<open>size_t\<close> is a 64-bit unsigned word: \<open>+\<close> and \<open>-\<close> wrap as in C.  C \<^verbatim>\<open>int\<close>
  values are modelled as \<open>int\<close>; the conversions between the two are written out
  (\<open>to_int\<close>, \<open>of_int_sz\<close>).  A \<^verbatim>\<open>char\<close> is an Isabelle \<open>char\<close> (one byte); a C string
  held in a \<^verbatim>\<open>char *\<close> the program only reads is a \<open>string\<close> without the terminator.
\<close>

type_synonym size_t = "64 word"

definition to_int :: "size_t \<Rightarrow> int" where
  "to_int x = sint (ucast x :: 32 word)"

definition of_int_sz :: "int \<Rightarrow> size_t" where
  "of_int_sz i = word_of_int i"

definition NUL :: char where
  "NUL = CHR 0x00"

text \<open>The value of a (signed) \<^verbatim>\<open>char\<close> converted to \<^verbatim>\<open>int\<close>.\<close>

definition schar :: "char \<Rightarrow> int" where
  "schar c = (if (of_char c :: nat) < 128 then int (of_char c) else int (of_char c) - 256)"

text \<open>
  \<^verbatim>\<open>struct termios\<close>: the four flag words and the control characters.  The flag
  constants are those of the Linux \<^verbatim>\<open><termios.h>\<close>.
\<close>

record termios =
  c_iflag :: "32 word"
  c_oflag :: "32 word"
  c_cflag :: "32 word"
  c_lflag :: "32 word"
  c_cc :: "nat \<Rightarrow> 8 word"

definition BRKINT :: "32 word" where "BRKINT = 0x2"
definition ICRNL :: "32 word" where "ICRNL = 0x100"
definition INPCK :: "32 word" where "INPCK = 0x10"
definition ISTRIP :: "32 word" where "ISTRIP = 0x20"
definition IXON :: "32 word" where "IXON = 0x400"
definition OPOST :: "32 word" where "OPOST = 0x1"
definition CS8 :: "32 word" where "CS8 = 0x30"
definition ECHO :: "32 word" where "ECHO = 0x8"
definition ICANON :: "32 word" where "ICANON = 0x2"
definition IEXTEN :: "32 word" where "IEXTEN = 0x8000"
definition ISIG :: "32 word" where "ISIG = 0x1"
definition VMIN :: nat where "VMIN = 6"
definition VTIME :: nat where "VTIME = 5"

definition ENOTTY :: int where "ENOTTY = 25"
definition EAGAIN :: int where "EAGAIN = 11"
definition EINVAL :: int where "EINVAL = 22"

text \<open>
  \<^verbatim>\<open>struct LinenoiseState\<close>.  \<open>buf\<close> is the memory the \<^verbatim>\<open>char *buf\<close> points to, indexed
  by byte offset.  \<open>history\<close> is \<open>None\<close> for the \<^verbatim>\<open>NULL\<close> pointer and otherwise the array
  of \<^verbatim>\<open>char *\<close> slots, a slot being \<open>None\<close> for \<^verbatim>\<open>NULL\<close>; a slot that was freed keeps its
  old (dangling) contents, as the C array does.
\<close>

record LinenoiseState =
  ifd :: int
  ofd :: int
  efd :: int
  buf :: "nat \<Rightarrow> char"
  buflen :: size_t
  prompt :: string
  plen :: size_t
  pos :: size_t
  oldpos :: size_t
  len :: size_t
  cols :: size_t
  maxrows :: size_t
  history_index :: int
  orig_termios :: termios
  rawmode :: bool
  mlmode :: bool
  nonblock :: bool
  history_max_len :: int
  history_len :: int
  history :: "(nat \<Rightarrow> string option) option"

text \<open>
  The three process-wide callback pointers; \<open>None\<close> is \<^verbatim>\<open>NULL\<close>.  A callback receives the
  \<^verbatim>\<open>const char *\<close> it is called with as the memory it points to.  The hints callback
  returns the hint (or \<^verbatim>\<open>NULL\<close>) and the values it leaves in \<^verbatim>\<open>*color\<close> and \<^verbatim>\<open>*bold\<close>
  (initially \<open>-1\<close> and \<open>0\<close>).  The completion callback returns the candidates it adds
  with \<^verbatim>\<open>LinenoiseAddCompletion\<close>, in order.  The free-hints callback only releases
  memory and has no effect in the model.
\<close>

type_synonym LinenoiseCompletionCallback = "(nat \<Rightarrow> char) \<Rightarrow> string list"
type_synonym LinenoiseHintsCallback = "(nat \<Rightarrow> char) \<Rightarrow> string option \<times> int \<times> int"

record callbacks =
  l_CompletionCallback :: "LinenoiseCompletionCallback option"
  l_HintsCallback :: "LinenoiseHintsCallback option"

text \<open>
  The terminal and the process environment the library talks to.  \<open>obytes\<close> and
  \<open>ebytes\<close> collect what was written to \<^verbatim>\<open>ofd\<close> and \<^verbatim>\<open>efd\<close>; \<open>ofail\<close> says that
  \<^verbatim>\<open>write(ofd, ...)\<close> returns \<open>-1\<close>.  \<open>seq_uninit\<close> is the indeterminate initial content
  of the local array \<^verbatim>\<open>char seq[3]\<close> of \<^verbatim>\<open>LinenoiseEdit\<close>.  What \<^verbatim>\<open>read(ifd, ...)\<close> delivers
  is a separate list of \<open>rd\<close> events, consumed from the front; at its end \<^verbatim>\<open>read\<close>
  returns 0.  \<open>get_columns\<close> is the value \<^verbatim>\<open>GetColumns\<close> obtains from the terminal, and
  \<open>heap_junk\<close> the indeterminate content of freshly allocated memory.
\<close>

datatype rd = Rd char | RdEof | RdErr

record world =
  isatty_ifd :: bool
  tcgetattr_ok :: bool
  tcsetattr_ok :: bool
  term_attr :: termios
  term_env :: "string option"
  errno :: int
  obytes :: string
  ebytes :: string
  ofail :: bool
  seq_uninit :: "nat \<Rightarrow> char"
  get_columns :: int
  heap_junk :: "nat \<Rightarrow> char"

definition LINENOISE_DEFAULT_HISTORY_MAX_LEN :: int where
  "LINENOISE_DEFAULT_HISTORY_MAX_LEN = 100"

definition LINENOISE_MAX_LINE :: nat where
  "LINENOISE_MAX_LINE = 4096"

definition KEY_NULL :: char where "KEY_NULL = CHR 0x00"
definition CTRL_A :: char where "CTRL_A = CHR 0x01"
definition CTRL_B :: char where "CTRL_B = CHR 0x02"
definition CTRL_C :: char where "CTRL_C = CHR 0x03"
definition CTRL_D :: char where "CTRL_D = CHR 0x04"
definition CTRL_E :: char where "CTRL_E = CHR 0x05"
definition CTRL_F :: char where "CTRL_F = CHR 0x06"
definition CTRL_H :: char where "CTRL_H = CHR 0x08"
definition TAB :: char where "TAB = CHR 0x09"
definition CTRL_K :: char where "CTRL_K = CHR 0x0B"
definition CTRL_L :: char where "CTRL_L = CHR 0x0C"
definition ENTER :: char where "ENTER = CHR 0x0D"
definition CTRL_N :: char where "CTRL_N = CHR 0x0E"
definition CTRL_P :: char where "CTRL_P = CHR 0x10"
definition CTRL_T :: char where "CTRL_T = CHR 0x14"
definition CTRL_U :: char where "CTRL_U = CHR 0x15"
definition CTRL_W :: char where "CTRL_W = CHR 0x17"
definition ESC :: char where "ESC = CHR 0x1B"
definition BACKSPACE :: char where "BACKSPACE = CHR 0x7F"

section \<open>C library functions used by the code\<close>

text \<open>
  \<^verbatim>\<open>strlen\<close> on a block of \<open>cap\<close> bytes: the scan stops at the first \<open>NUL\<close>; a block
  without one yields \<open>cap\<close> (the C function would run past the block).
\<close>

function strlen_from :: "(nat \<Rightarrow> char) \<Rightarrow> nat \<Rightarrow> nat \<Rightarrow> nat" where
  "strlen_from b i cap = (if i < cap \<and> b i \<noteq> NUL then strlen_from b (i + 1) cap else i)"
  by pat_completeness auto
termination
  by (relation "measure (\<lambda>(b, i, cap). cap - i)") auto

declare strlen_from.simps [simp del]

definition strlen_buf :: "(nat \<Rightarrow> char) \<Rightarrow> nat" where
  "strlen_buf b = strlen_from b 0 LINENOISE_MAX_LINE"

text \<open>\<^verbatim>\<open>strdup\<close> of the edit buffer: the bytes before the first \<open>NUL\<close>.\<close>

definition strdup_buf :: "(nat \<Rightarrow> char) \<Rightarrow> string" where
  "strdup_buf b = map b [0..<strlen_buf b]"

text \<open>The memory a \<^verbatim>\<open>char *\<close> to a C string points to: its bytes, then the terminator.\<close>

definition cstr_mem :: "string \<Rightarrow> nat \<Rightarrow> char" where
  "cstr_mem s = (\<lambda>i. if i < length s then s ! i else NUL)"

definition memmove :: "(nat \<Rightarrow> 'a) \<Rightarrow> nat \<Rightarrow> nat \<Rightarrow> nat \<Rightarrow> nat \<Rightarrow> 'a" where
  "memmove b dst src n = (\<lambda>i. if dst \<le> i \<and> i < dst + n then b (src + (i - dst)) else b i)"

definition memset :: "(nat \<Rightarrow> 'a) \<Rightarrow> 'a \<Rightarrow> nat \<Rightarrow> nat \<Rightarrow> 'a" where
  "memset b c n = (\<lambda>i. if i < n then c else b i)"

text \<open>\<^verbatim>\<open>strncpy(dst, src, n)\<close>: \<open>n\<close> bytes are written, the string and then padding.\<close>

definition strncpy :: "(nat \<Rightarrow> char) \<Rightarrow> string \<Rightarrow> nat \<Rightarrow> nat \<Rightarrow> char" where
  "strncpy b src n = (\<lambda>i. if i < n then (if i < length src then src ! i else NUL) else b i)"

text \<open>
  \<^verbatim>\<open>snprintf(dst, n, "%s", s)\<close>: at most \<open>n - 1\<close> bytes of \<open>s\<close> and a terminator are
  written; the value returned is the length of \<open>s\<close>, truncated or not.
\<close>

definition snprintf_s :: "(nat \<Rightarrow> char) \<Rightarrow> nat \<Rightarrow> string \<Rightarrow> (nat \<Rightarrow> char) \<times> int" where
  "snprintf_s b n s =
     (if n = 0 then (b, int (length s))
      else (let k = min (length s) (n - 1)
            in ((\<lambda>i. if i < k then s ! i else if i = k then NUL else b i), int (length s))))"

text \<open>The conversion \<^verbatim>\<open>%d\<close>.\<close>

function digits :: "nat \<Rightarrow> string" where
  "digits n = (if n < 10 then [''0123456789'' ! n]
               else digits (n div 10) @ [''0123456789'' ! (n mod 10)])"
  by pat_completeness auto
termination
  by (relation "measure id") auto

declare digits.simps [simp del]

definition fmt_d :: "int \<Rightarrow> string" where
  "fmt_d i = (if i < 0 then CHR ''-'' # digits (nat (- i)) else digits (nat i))"

text \<open>C's \<^verbatim>\<open>%\<close> on \<^verbatim>\<open>int\<close>: the remainder of the division that truncates towards zero.\<close>

definition c_rem :: "int \<Rightarrow> int \<Rightarrow> int" where
  "c_rem a b = sgn a * (\<bar>a\<bar> mod \<bar>b\<bar>)"

text \<open>\<^verbatim>\<open>write(ofd, s, n)\<close> and the bell on \<^verbatim>\<open>efd\<close>.\<close>

definition write_ofd :: "world \<Rightarrow> string \<Rightarrow> int \<times> world" where
  "write_ofd w s = (if ofail w then (-1, w) else (int (length s), w\<lparr>obytes := obytes w @ s\<rparr>))"

definition LinenoiseBeep :: "world \<Rightarrow> world" where
  "LinenoiseBeep w = w\<lparr>ebytes := ebytes w @ [CHR 0x07]\<rparr>"

text \<open>\<^verbatim>\<open>read(ifd, &c, 1)\<close>: the event read and the input left.\<close>

fun read_ifd :: "rd list \<Rightarrow> rd \<times> rd list" where
  "read_ifd [] = (RdEof, [])"
| "read_ifd (r # rs) = (r, rs)"

section \<open>Low level terminal handling\<close>

definition LinenoiseSetMultiLine :: "LinenoiseState \<Rightarrow> bool \<Rightarrow> LinenoiseState" where
  "LinenoiseSetMultiLine ls ml = ls\<lparr>mlmode := ml\<rparr>"

text \<open>
  \<^verbatim>\<open>EnableRawMode\<close>: the value returned, the session and the terminal afterwards.  Every
  failure goes to the label \<^verbatim>\<open>fatal\<close>, which sets \<^verbatim>\<open>errno\<close> and returns \<open>-1\<close>.
\<close>

definition raw_attr :: "termios \<Rightarrow> termios" where
  "raw_attr t =
     (let raw = t;
          raw = raw\<lparr>c_iflag := c_iflag raw AND NOT (BRKINT OR ICRNL OR INPCK OR ISTRIP OR IXON)\<rparr>;
          raw = raw\<lparr>c_oflag := c_oflag raw AND NOT OPOST\<rparr>;
          raw = raw\<lparr>c_cflag := c_cflag raw OR CS8\<rparr>;
          raw = raw\<lparr>c_lflag := c_lflag raw AND NOT (ECHO OR ICANON OR IEXTEN OR ISIG)\<rparr>;
          raw = raw\<lparr>c_cc := (c_cc raw)(VMIN := 1)\<rparr>;
          raw = raw\<lparr>c_cc := (c_cc raw)(VTIME := 0)\<rparr>
      in raw)"

definition EnableRawMode :: "LinenoiseState \<Rightarrow> world \<Rightarrow> int \<times> LinenoiseState \<times> world" where
  "EnableRawMode ls w =
     (if \<not> isatty_ifd w then (-1, ls, w\<lparr>errno := ENOTTY\<rparr>)
      else if \<not> tcgetattr_ok w then (-1, ls, w\<lparr>errno := ENOTTY\<rparr>)
      else (let ls = ls\<lparr>orig_termios := term_attr w\<rparr>;
                raw = raw_attr (orig_termios ls)
            in if \<not> tcsetattr_ok w then (-1, ls, w\<lparr>errno := ENOTTY\<rparr>)
               else (0, ls\<lparr>rawmode := False\<rparr>, w\<lparr>term_attr := raw\<rparr>)))"

definition DisableRawMode :: "LinenoiseState \<Rightarrow> world \<Rightarrow> LinenoiseState \<times> world" where
  "DisableRawMode ls w =
     (if rawmode ls \<and> tcsetattr_ok w
      then (ls\<lparr>rawmode := False\<rparr>, w\<lparr>term_attr := orig_termios ls\<rparr>)
      else (ls, w))"

definition LinenoiseClearScreen :: "LinenoiseState \<Rightarrow> world \<Rightarrow> world" where
  "LinenoiseClearScreen ls w = snd (write_ofd w (CHR 0x1B # ''[H'' @ CHR 0x1B # ''[2J''))"

section \<open>Line editing: the render engine\<close>

text \<open>
  The append buffer \<^verbatim>\<open>struct abuf\<close> is the string built so far.  \<^verbatim>\<open>abAppend(ab, s, len)\<close>
  copies \<open>len\<close> bytes from the memory at \<open>s\<close> (\<^verbatim>\<open>realloc\<close> is taken to succeed; a negative
  \<open>len\<close> copies nothing here).
\<close>

definition abAppend :: "string \<Rightarrow> (nat \<Rightarrow> char) \<Rightarrow> int \<Rightarrow> string" where
  "abAppend ab s n = ab @ map s [0..<nat n]"

definition abAppend_str :: "string \<Rightarrow> string \<Rightarrow> string" where
  \<comment> \<open>\<^verbatim>\<open>abAppend(ab, seq, strlen(seq))\<close> for a short formatted sequence\<close>
  "abAppend_str ab seq = abAppend ab (cstr_mem seq) (int (length seq))"

definition abAppend_if :: "bool \<Rightarrow> string \<Rightarrow> string \<Rightarrow> string" where
  \<comment> \<open>\<^verbatim>\<open>if (c) abAppend(ab, seq, strlen(seq))\<close>\<close>
  "abAppend_if c ab seq = (if c then abAppend_str ab seq else ab)"

definition RefreshShowHints :: "callbacks \<Rightarrow> string \<Rightarrow> LinenoiseState \<Rightarrow> int \<Rightarrow> string" where
  "RefreshShowHints cb ab l pl =
     (case l_HintsCallback cb of
        None \<Rightarrow> ab
      | Some hc \<Rightarrow>
          if of_int_sz pl + len l < cols l then
            (case hc (buf l) of
               (None, color, bold) \<Rightarrow> ab
             | (Some hint, color, bold) \<Rightarrow>
                 (let hintlen = int (length hint);
                      hintmaxlen = to_int (cols l - (of_int_sz pl + len l));
                      hintlen = (if hintlen > hintmaxlen then hintmaxlen else hintlen);
                      color = (if bold = 1 \<and> color = -1 then 37 else color);
                      seq = (if color \<noteq> -1 \<or> bold \<noteq> 0
                             then CHR 0x1B # ''['' @ fmt_d bold @ '';'' @ fmt_d color @ '';49m''
                             else []);
                      ab = abAppend_str ab seq;
                      ab = abAppend ab (cstr_mem hint) hintlen;
                      ab = abAppend_if (color \<noteq> -1 \<or> bold \<noteq> 0) ab (CHR 0x1B # ''[0m'')
                  in ab))
          else ab)"

text \<open>
  The two loops of \<^verbatim>\<open>RefreshSingleLine\<close> on the local copies of \<open>buf\<close>, \<open>len\<close> and \<open>pos\<close>.
  The first one does not end when \<open>cols = 0\<close>, so it is a partial function: \<open>None\<close> is
  a loop that never exits.  \<open>off\<close> counts the \<^verbatim>\<open>buf++\<close>.
\<close>

partial_function (option) slide_window ::
  "size_t \<Rightarrow> size_t \<Rightarrow> nat \<Rightarrow> size_t \<Rightarrow> size_t \<Rightarrow> (nat \<times> size_t \<times> size_t) option" where
  "slide_window pl cl off ln ps =
     (if pl + ps \<ge> cl then slide_window pl cl (off + 1) (ln - 1) (ps - 1)
      else Some (off, ln, ps))"

declare slide_window.simps [code]

function trim_tail :: "size_t \<Rightarrow> size_t \<Rightarrow> size_t \<Rightarrow> size_t" where
  "trim_tail pl cl ln = (if pl + ln > cl then trim_tail pl cl (ln - 1) else ln)"
  by pat_completeness auto
termination
proof (relation "measure (\<lambda>(pl, cl, ln). unat (pl + ln))")
  show "wf (measure (\<lambda>(pl :: size_t, cl :: size_t, ln :: size_t). unat (pl + ln)))"
    by simp
next
  fix pl cl ln :: size_t
  assume gt: "cl < pl + ln"
  then have nz: "pl + ln \<noteq> 0"
    by auto
  have e: "pl + (ln - 1) = pl + ln - 1"
    by simp
  have "unat (pl + (ln - 1)) < unat (pl + ln)"
    unfolding e by (rule measure_unat [OF nz])
  then show "((pl, cl, ln - 1), (pl, cl, ln))
      \<in> measure (\<lambda>(pl, cl, ln). unat (pl + ln))"
    by simp
qed

declare trim_tail.simps [simp del]

text \<open>
  The window \<^verbatim>\<open>RefreshSingleLine\<close> computes before it writes anything: how far \<open>buf\<close> was
  advanced, and the final values of the locals \<open>len\<close> and \<open>pos\<close>.
\<close>

definition single_line_window :: "LinenoiseState \<Rightarrow> (nat \<times> size_t \<times> size_t) option" where
  "single_line_window l =
     (let pl = (of_nat (length (prompt l)) :: size_t)
      in case slide_window pl (cols l) 0 (len l) (pos l) of
           None \<Rightarrow> None
         | Some (off, len1, pos1) \<Rightarrow> Some (off, trim_tail pl (cols l) len1, pos1))"

definition RefreshSingleLine :: "callbacks \<Rightarrow> LinenoiseState \<Rightarrow> world \<Rightarrow> world option" where
  "RefreshSingleLine cb l w =
     (let pl = (of_nat (length (prompt l)) :: size_t)
      in case single_line_window l of
           None \<Rightarrow> None
         | Some (off, len2, pos1) \<Rightarrow>
             (let ab = [];
                  ab = abAppend_str ab [CHR 0x0D];
                  ab = abAppend ab (cstr_mem (prompt l)) (to_int (of_nat (length (prompt l))));
                  ab = abAppend ab (\<lambda>i. buf l (off + i)) (to_int len2);
                  ab = RefreshShowHints cb ab l (to_int pl);
                  ab = abAppend_str ab (CHR 0x1B # ''[0K'');
                  ab = abAppend_str ab (CHR 0x0D # CHR 0x1B # ''['' @ fmt_d (to_int (pos1 + pl)) @ ''C'')
              in Some (snd (write_ofd w ab))))"

text \<open>
  \<^verbatim>\<open>RefreshMultiLine\<close> divides by \<open>cols\<close> (and by \<^verbatim>\<open>(int)cols\<close>): a zero divisor traps,
  which is \<open>None\<close>.
\<close>

definition RefreshMultiLine ::
  "callbacks \<Rightarrow> LinenoiseState \<Rightarrow> world \<Rightarrow> (LinenoiseState \<times> world) option" where
  "RefreshMultiLine cb l w =
     (if cols l = 0 \<or> to_int (cols l) = 0 then None
      else
        (let pl = to_int (of_nat (length (prompt l)));
             rows = to_int ((of_int_sz pl + len l + cols l - 1) div cols l);
             rpos = to_int ((of_int_sz pl + oldpos l + cols l) div cols l);
             old_rows = to_int (maxrows l);
             l = l\<lparr>maxrows := (if rows > to_int (maxrows l) then of_int_sz rows else maxrows l)\<rparr>;
             ab = [];
             ab = abAppend_if (old_rows - rpos > 0) ab
                    (CHR 0x1B # ''['' @ fmt_d (old_rows - rpos) @ ''B'');
             ab = ab @ concat (replicate (nat (old_rows - 1))
                                 (CHR 0x0D # CHR 0x1B # ''[0K'' @ CHR 0x1B # ''[1A''));
             ab = abAppend_str ab (CHR 0x0D # CHR 0x1B # ''[0K'');
             ab = abAppend ab (cstr_mem (prompt l)) (to_int (of_nat (length (prompt l))));
             ab = abAppend ab (buf l) (to_int (len l));
             ab = RefreshShowHints cb ab l pl;
             nl = (pos l \<noteq> 0 \<and> pos l = len l \<and> (pos l + of_int_sz pl) mod cols l = 0);
             ab = abAppend_if nl ab [CHR 0x0A];
             ab = abAppend_if nl ab [CHR 0x0D];
             rows = (if nl then rows + 1 else rows);
             l = l\<lparr>maxrows := (if nl \<and> rows > to_int (maxrows l) then of_int_sz rows else maxrows l)\<rparr>;
             rpos2 = to_int ((of_int_sz pl + pos l + cols l) div cols l);
             ab = abAppend_if (rows - rpos2 > 0) ab
                    (CHR 0x1B # ''['' @ fmt_d (rows - rpos2) @ ''A'');
             col = c_rem (pl + to_int (pos l)) (to_int (cols l));
             ab = abAppend_str ab
                    (if col \<noteq> 0 then CHR 0x0D # CHR 0x1B # ''['' @ fmt_d col @ ''C'' else [CHR 0x0D]);
             l = l\<lparr>oldpos := pos l\<rparr>
         in Some (l, snd (write_ofd w ab))))"

definition RefreshLine ::
  "callbacks \<Rightarrow> LinenoiseState \<Rightarrow> world \<Rightarrow> (LinenoiseState \<times> world) option" where
  "RefreshLine cb l w =
     (if mlmode l then RefreshMultiLine cb l w
      else map_option (Pair l) (RefreshSingleLine cb l w))"

section \<open>Line editing: the edit operations\<close>

text \<open>
  An operation that refreshes the line returns \<open>None\<close> when it does not return normally:
  the refresh loops for ever or traps, or the operation reads through \<^verbatim>\<open>NULL\<close> or below
  an array.  Pointer arithmetic on \<open>buf\<close> is arithmetic on byte offsets.
\<close>

definition LinenoiseEditInsert ::
  "callbacks \<Rightarrow> LinenoiseState \<Rightarrow> char \<Rightarrow> world \<Rightarrow> (int \<times> LinenoiseState \<times> world) option" where
  "LinenoiseEditInsert cb l c w =
     (if len l < buflen l then
        (if len l = pos l then
           (let l = l\<lparr>buf := (buf l)(unat (pos l) := c)\<rparr>;
                l = l\<lparr>pos := pos l + 1\<rparr>;
                l = l\<lparr>len := len l + 1\<rparr>;
                l = l\<lparr>buf := (buf l)(unat (len l) := NUL)\<rparr>
            in if \<not> mlmode l \<and> plen l + len l < cols l \<and> l_HintsCallback cb = None then
                 (if fst (write_ofd w [c]) = -1 then Some (-1, l, snd (write_ofd w [c]))
                  else Some (0, l, snd (write_ofd w [c])))
               else map_option (Pair 0) (RefreshLine cb l w))
         else
           (let l = l\<lparr>buf := memmove (buf l) (unat (pos l) + 1) (unat (pos l)) (unat (len l - pos l))\<rparr>;
                l = l\<lparr>buf := (buf l)(unat (pos l) := c)\<rparr>;
                l = l\<lparr>len := len l + 1\<rparr>;
                l = l\<lparr>pos := pos l + 1\<rparr>;
                l = l\<lparr>buf := (buf l)(unat (len l) := NUL)\<rparr>
            in map_option (Pair 0) (RefreshLine cb l w)))
      else Some (0, l, w))"

definition LinenoiseEditMoveLeft ::
  "callbacks \<Rightarrow> LinenoiseState \<Rightarrow> world \<Rightarrow> (LinenoiseState \<times> world) option" where
  "LinenoiseEditMoveLeft cb l w =
     (if pos l > 0 then RefreshLine cb (l\<lparr>pos := pos l - 1\<rparr>) w else Some (l, w))"

definition LinenoiseEditMoveRight ::
  "callbacks \<Rightarrow> LinenoiseState \<Rightarrow> world \<Rightarrow> (LinenoiseState \<times> world) option" where
  "LinenoiseEditMoveRight cb l w =
     (if pos l \<noteq> len l then RefreshLine cb (l\<lparr>pos := pos l + 1\<rparr>) w else Some (l, w))"

definition LinenoiseEditMoveHome ::
  "callbacks \<Rightarrow> LinenoiseState \<Rightarrow> world \<Rightarrow> (LinenoiseState \<times> world) option" where
  "LinenoiseEditMoveHome cb l w =
     (if pos l \<noteq> 0 then RefreshLine cb (l\<lparr>pos := 0\<rparr>) w else Some (l, w))"

definition LinenoiseEditMoveEnd ::
  "callbacks \<Rightarrow> LinenoiseState \<Rightarrow> world \<Rightarrow> (LinenoiseState \<times> world) option" where
  "LinenoiseEditMoveEnd cb l w =
     (if pos l \<noteq> len l then RefreshLine cb (l\<lparr>pos := len l\<rparr>) w else Some (l, w))"

definition LINENOISE_HISTORY_NEXT :: int where "LINENOISE_HISTORY_NEXT = 0"
definition LINENOISE_HISTORY_PREV :: int where "LINENOISE_HISTORY_PREV = 1"

definition LinenoiseEditHistoryNext ::
  "callbacks \<Rightarrow> LinenoiseState \<Rightarrow> int \<Rightarrow> world \<Rightarrow> (LinenoiseState \<times> world) option" where
  "LinenoiseEditHistoryNext cb l dir w =
     (if history_len l > 1 then
        (case history l of
           None \<Rightarrow> None
         | Some h \<Rightarrow>
             if history_len l - 1 - history_index l < 0 then None
             else
               (let h = h(nat (history_len l - 1 - history_index l) := Some (strdup_buf (buf l)));
                    l = l\<lparr>history := Some h\<rparr>;
                    l = l\<lparr>history_index :=
                           history_index l + (if dir = LINENOISE_HISTORY_PREV then 1 else -1)\<rparr>
                in if history_index l < 0 then Some (l\<lparr>history_index := 0\<rparr>, w)
                   else if history_index l \<ge> history_len l
                   then Some (l\<lparr>history_index := history_len l - 1\<rparr>, w)
                   else
                     (case h (nat (history_len l - 1 - history_index l)) of
                        None \<Rightarrow> None
                      | Some e \<Rightarrow>
                          (let l = l\<lparr>buf := strncpy (buf l) e (unat (buflen l))\<rparr>;
                               l = l\<lparr>buf := (buf l)(unat (buflen l - 1) := NUL)\<rparr>;
                               l = l\<lparr>pos := of_nat (strlen_buf (buf l))\<rparr>;
                               l = l\<lparr>len := pos l\<rparr>
                           in RefreshLine cb l w))))
      else Some (l, w))"

definition LinenoiseEditDelete ::
  "callbacks \<Rightarrow> LinenoiseState \<Rightarrow> world \<Rightarrow> (LinenoiseState \<times> world) option" where
  "LinenoiseEditDelete cb l w =
     (if len l > 0 \<and> pos l < len l then
        (let l = l\<lparr>buf := memmove (buf l) (unat (pos l)) (unat (pos l) + 1) (unat (len l - pos l - 1))\<rparr>;
             l = l\<lparr>len := len l - 1\<rparr>;
             l = l\<lparr>buf := (buf l)(unat (len l) := NUL)\<rparr>
         in RefreshLine cb l w)
      else Some (l, w))"

definition LinenoiseEditBackspace ::
  "callbacks \<Rightarrow> LinenoiseState \<Rightarrow> world \<Rightarrow> (LinenoiseState \<times> world) option" where
  "LinenoiseEditBackspace cb l w =
     (if pos l > 0 \<and> len l > 0 then
        (let l = l\<lparr>buf := memmove (buf l) (unat (pos l) - 1) (unat (pos l)) (unat (len l - pos l))\<rparr>;
             l = l\<lparr>pos := pos l - 1\<rparr>;
             l = l\<lparr>len := len l - 1\<rparr>;
             l = l\<lparr>buf := (buf l)(unat (len l) := NUL)\<rparr>
         in RefreshLine cb l w)
      else Some (l, w))"

text \<open>The two \<^verbatim>\<open>while\<close> loops of \<^verbatim>\<open>LinenoiseEditDeletePrevWord\<close> on \<^verbatim>\<open>l->pos\<close>.\<close>

function retreat_spaces :: "(nat \<Rightarrow> char) \<Rightarrow> size_t \<Rightarrow> size_t" where
  "retreat_spaces b p =
     (if p > 0 \<and> b (unat (p - 1)) = CHR '' '' then retreat_spaces b (p - 1) else p)"
  by pat_completeness auto
termination
  by (relation "measure (\<lambda>(b, p). unat p)") (auto simp: measure_unat)

function retreat_word :: "(nat \<Rightarrow> char) \<Rightarrow> size_t \<Rightarrow> size_t" where
  "retreat_word b p =
     (if p > 0 \<and> b (unat (p - 1)) \<noteq> CHR '' '' then retreat_word b (p - 1) else p)"
  by pat_completeness auto
termination
  by (relation "measure (\<lambda>(b, p). unat p)") (auto simp: measure_unat)

declare retreat_spaces.simps [simp del]
declare retreat_word.simps [simp del]

definition LinenoiseEditDeletePrevWord ::
  "callbacks \<Rightarrow> LinenoiseState \<Rightarrow> world \<Rightarrow> (LinenoiseState \<times> world) option" where
  "LinenoiseEditDeletePrevWord cb l w =
     (let old_pos = pos l;
          l = l\<lparr>pos := retreat_spaces (buf l) (pos l)\<rparr>;
          l = l\<lparr>pos := retreat_word (buf l) (pos l)\<rparr>;
          diff = old_pos - pos l;
          l = l\<lparr>buf := memmove (buf l) (unat (pos l)) (unat old_pos) (unat (len l - old_pos + 1))\<rparr>;
          l = l\<lparr>len := len l - diff\<rparr>
      in RefreshLine cb l w)"

definition LinenoiseClearBuffer ::
  "callbacks \<Rightarrow> LinenoiseState \<Rightarrow> world \<Rightarrow> (LinenoiseState \<times> world) option" where
  "LinenoiseClearBuffer cb ls w =
     (let ls = ls\<lparr>buf := memset (buf ls) NUL (unat (buflen ls))\<rparr>;
          ls = ls\<lparr>pos := 0\<rparr>
      in RefreshLine cb ls w)"

section \<open>History\<close>

text \<open>
  \<open>history_slot ls i\<close> is the C string \<^verbatim>\<open>ls->history[i]\<close> when it can be read: the array is
  not \<^verbatim>\<open>NULL\<close>, the index is not negative and the slot is not \<^verbatim>\<open>NULL\<close>.
\<close>

definition history_slot :: "LinenoiseState \<Rightarrow> int \<Rightarrow> string option" where
  "history_slot ls i =
     (case history ls of None \<Rightarrow> None | Some h \<Rightarrow> if i < 0 then None else h (nat i))"

text \<open>The entries in use, oldest first.\<close>

definition history_entries :: "LinenoiseState \<Rightarrow> string option list" where
  "history_entries ls = map (\<lambda>i. history_slot ls (int i)) [0..<nat (history_len ls)]"

definition memcpy :: "(nat \<Rightarrow> 'a) \<Rightarrow> (nat \<Rightarrow> 'a) \<Rightarrow> nat \<Rightarrow> nat \<Rightarrow> nat \<Rightarrow> 'a" where
  "memcpy dst src off n = (\<lambda>i. if i < n then src (off + i) else dst i)"

text \<open>
  \<^verbatim>\<open>LinenoiseHistoryAdd\<close> (\<^verbatim>\<open>malloc\<close> and \<^verbatim>\<open>strdup\<close> are taken to succeed).  \<open>None\<close>: the
  comparison or the store goes through a pointer that cannot be used.
\<close>

definition LinenoiseHistoryAdd :: "LinenoiseState \<Rightarrow> string \<Rightarrow> (int \<times> LinenoiseState) option" where
  "LinenoiseHistoryAdd ls line =
     (if history_max_len ls = 0 then Some (0, ls)
      else
        (let ls = (if history ls = None then ls\<lparr>history := Some (\<lambda>i. None)\<rparr> else ls)
         in if history_len ls \<noteq> 0 \<and> history_slot ls (history_len ls - 1) = None then None
            else if history_len ls \<noteq> 0 \<and> history_slot ls (history_len ls - 1) = Some line
            then Some (0, ls)
            else
              (let linecopy = line;
                   ls = (if history_len ls = history_max_len ls
                         then ls\<lparr>history := map_option
                                   (\<lambda>h. memmove h 0 1 (nat (history_max_len ls - 1))) (history ls),
                                 history_len := history_len ls - 1\<rparr>
                         else ls)
               in if history_len ls < 0 then None
                  else Some (1, ls\<lparr>history := map_option
                                    (\<lambda>h. h(nat (history_len ls) := Some linecopy)) (history ls),
                                  history_len := history_len ls + 1\<rparr>))))"

definition LinenoiseHistorySetMaxLen :: "LinenoiseState \<Rightarrow> int \<Rightarrow> int \<times> LinenoiseState" where
  "LinenoiseHistorySetMaxLen ls n =
     (if n < 1 then (0, ls)
      else
        (let ls = (case history ls of
                     None \<Rightarrow> ls
                   | Some h \<Rightarrow>
                       (let tocopy = history_len ls;
                            tocopy = (if n < tocopy then n else tocopy);
                            new = (\<lambda>i. None);
                            new = memcpy new h (nat (history_len ls - tocopy)) (nat tocopy)
                        in ls\<lparr>history := Some new\<rparr>));
             ls = ls\<lparr>history_max_len := n\<rparr>;
             ls = (if history_len ls > history_max_len ls
                   then ls\<lparr>history_len := history_max_len ls\<rparr> else ls)
         in (1, ls)))"

definition FreeHistory :: "LinenoiseState \<Rightarrow> LinenoiseState" where
  "FreeHistory ls = ls\<lparr>history := None, history_len := 0\<rparr>"

definition LinenoiseRestore :: "LinenoiseState \<Rightarrow> world \<Rightarrow> LinenoiseState \<times> world" where
  "LinenoiseRestore ls w =
     (let (ls, w) = DisableRawMode ls w;
          w = (if tcsetattr_ok w then w\<lparr>term_attr := orig_termios ls\<rparr> else w)
      in (FreeHistory ls, w))"

text \<open>
  Files: a name has a content and a permission mode, or no file.  \<open>creatable\<close> says
  whether \<^verbatim>\<open>fopen(name, "w")\<close> succeeds.
\<close>

record filesys =
  files :: "string \<Rightarrow> (string \<times> nat) option"
  creatable :: "string \<Rightarrow> bool"

definition S_IRUSR :: nat where "S_IRUSR = 0x100"
definition S_IWUSR :: nat where "S_IWUSR = 0x80"

function save_loop :: "LinenoiseState \<Rightarrow> nat \<Rightarrow> string \<Rightarrow> string option" where
  "save_loop ls j fp =
     (if int j < history_len ls then
        (case history_slot ls (int j) of
           None \<Rightarrow> None
         | Some e \<Rightarrow> save_loop ls (j + 1) (fp @ e @ [CHR 0x0A]))
      else Some fp)"
  by pat_completeness auto
termination
  by (relation "measure (\<lambda>(ls, j, fp). nat (history_len ls) - j)") auto

declare save_loop.simps [simp del]

definition LinenoiseHistorySave ::
  "LinenoiseState \<Rightarrow> filesys \<Rightarrow> string \<Rightarrow> (int \<times> filesys) option" where
  "LinenoiseHistorySave ls fs filename =
     (if \<not> creatable fs filename then Some (-1, fs)
      else
        (case save_loop ls 0 [] of
           None \<Rightarrow> None
         | Some fp \<Rightarrow> Some (0, fs\<lparr>files := (files fs)(filename := Some (fp, S_IRUSR + S_IWUSR))\<rparr>)))"

text \<open>
  \<^verbatim>\<open>fgets(buf, n, fp)\<close> on the unread rest of a file: at most \<open>n - 1\<close> bytes, up to and
  including the first newline; \<^verbatim>\<open>NULL\<close> at the end of the file.
\<close>

fun fgets_take :: "nat \<Rightarrow> string \<Rightarrow> string" where
  "fgets_take n [] = []"
| "fgets_take n (c # cs) =
     (if n = 0 then [] else if c = CHR 0x0A then [c] else c # fgets_take (n - 1) cs)"

definition fgets :: "nat \<Rightarrow> string \<Rightarrow> (string \<times> string) option" where
  "fgets n fp =
     (if fp = [] then None
      else (let got = fgets_take (n - 1) fp in Some (got, drop (length got) fp)))"

text \<open>
  What \<^verbatim>\<open>LinenoiseHistoryLoad\<close> makes of a line read: the C string in the buffer, cut at
  its first carriage return, or else at its first newline.
\<close>

definition strip_eol :: "string \<Rightarrow> string" where
  "strip_eol s =
     (let s = takeWhile (\<lambda>c. c \<noteq> NUL) s
      in if CHR 0x0D \<in> set s then takeWhile (\<lambda>c. c \<noteq> CHR 0x0D) s
         else takeWhile (\<lambda>c. c \<noteq> CHR 0x0A) s)"

lemma fgets_shorter:
  "fgets LINENOISE_MAX_LINE fp = Some (got, rest) \<Longrightarrow> length rest < length fp"
  by (cases fp) (auto simp: fgets_def LINENOISE_MAX_LINE_def Let_def split: if_splits)

function load_loop :: "LinenoiseState \<Rightarrow> string \<Rightarrow> LinenoiseState option" where
  "load_loop ls fp =
     (case fgets LINENOISE_MAX_LINE fp of
        None \<Rightarrow> Some ls
      | Some (got, rest) \<Rightarrow>
          (case LinenoiseHistoryAdd ls (strip_eol got) of
             None \<Rightarrow> None
           | Some (r, ls') \<Rightarrow> load_loop ls' rest))"
  by pat_completeness auto
termination
  by (relation "measure (\<lambda>(ls, fp). length fp)") (auto simp: fgets_shorter)

declare load_loop.simps [simp del]

definition LinenoiseHistoryLoad ::
  "LinenoiseState \<Rightarrow> filesys \<Rightarrow> string \<Rightarrow> (int \<times> LinenoiseState) option" where
  "LinenoiseHistoryLoad ls fs filename =
     (case files fs filename of
        None \<Rightarrow> Some (-1, ls)
      | Some (fp, m) \<Rightarrow> map_option (Pair 0) (load_loop ls fp))"

section \<open>Completion\<close>

text \<open>
  The loop of \<^verbatim>\<open>CompleteLine\<close> over the candidates \<open>lc\<close>, at candidate \<open>i\<close>.  The value
  returned is the \<^verbatim>\<open>int\<close> the C function returns, with the input left.
\<close>

definition show_completion ::
  "callbacks \<Rightarrow> string list \<Rightarrow> nat \<Rightarrow> LinenoiseState \<Rightarrow> world
     \<Rightarrow> (LinenoiseState \<times> world) option" where
  \<comment> \<open>show the completion or the original buffer\<close>
  "show_completion cb lc i ls w =
     (if i < length lc then
        (let saved = ls;
             ls = ls\<lparr>pos := of_nat (length (lc ! i))\<rparr>;
             ls = ls\<lparr>len := pos ls\<rparr>;
             ls = ls\<lparr>buf := cstr_mem (lc ! i)\<rparr>
         in map_option (\<lambda>(ls, w). (ls\<lparr>len := len saved, pos := pos saved, buf := buf saved\<rparr>, w))
              (RefreshLine cb ls w))
      else RefreshLine cb ls w)"

definition commit_completion :: "string list \<Rightarrow> nat \<Rightarrow> LinenoiseState \<Rightarrow> LinenoiseState" where
  \<comment> \<open>update the buffer and return\<close>
  "commit_completion lc i ls =
     (if i < length lc then
        (let (b, nwritten) = snprintf_s (buf ls) (unat (buflen ls)) (lc ! i);
             ls = ls\<lparr>buf := b\<rparr>;
             ls = ls\<lparr>pos := of_int_sz nwritten\<rparr>
         in ls\<lparr>len := pos ls\<rparr>)
      else ls)"

fun complete_loop ::
  "callbacks \<Rightarrow> string list \<Rightarrow> nat \<Rightarrow> LinenoiseState \<Rightarrow> world \<Rightarrow> rd list
     \<Rightarrow> (int \<times> LinenoiseState \<times> world \<times> rd list) option" where
  "complete_loop cb lc i ls w inp =
     (case show_completion cb lc i ls w of
        None \<Rightarrow> None
      | Some (ls, w) \<Rightarrow>
          (case inp of
             [] \<Rightarrow> Some (-1, ls, w, [])
           | RdEof # rest \<Rightarrow> Some (-1, ls, w, rest)
           | RdErr # rest \<Rightarrow> Some (-1, ls, w, rest)
           | Rd c # rest \<Rightarrow>
               if c = TAB then
                 (let i = (i + 1) mod (length lc + 1);
                      w = (if i = length lc then LinenoiseBeep w else w)
                  in complete_loop cb lc i ls w rest)
               else if c = ESC then
                 map_option (\<lambda>(ls, w). (schar c, ls, w, rest))
                   (if i < length lc then RefreshLine cb ls w else Some (ls, w))
               else Some (schar c, commit_completion lc i ls, w, rest)))"

declare complete_loop.simps [simp del]

definition CompleteLine ::
  "callbacks \<Rightarrow> LinenoiseState \<Rightarrow> world \<Rightarrow> rd list
     \<Rightarrow> (int \<times> LinenoiseState \<times> world \<times> rd list) option" where
  "CompleteLine cb ls w inp =
     (case l_CompletionCallback cb of
        None \<Rightarrow> None
      | Some f \<Rightarrow>
          (let lc = f (buf ls)
           in if length lc = 0 then Some (schar NUL, ls, LinenoiseBeep w, inp)
              else complete_loop cb lc 0 ls w inp))"

section \<open>The editing loop\<close>

text \<open>
  One turn of the \<^verbatim>\<open>while (true)\<close> loop of \<^verbatim>\<open>LinenoiseEdit\<close> either goes on to the next
  turn or returns from the function.
\<close>

datatype edit_result =
  Continue LinenoiseState world "rd list"
| Return int LinenoiseState world "rd list"

definition go_on :: "rd list \<Rightarrow> (LinenoiseState \<times> world) option \<Rightarrow> edit_result option" where
  \<comment> \<open>the \<^verbatim>\<open>break\<close> after an edit operation\<close>
  "go_on inp r = map_option (\<lambda>(ls, w). Continue ls w inp) r"

text \<open>
  \<^verbatim>\<open>case ESC\<close>: up to three more reads into \<^verbatim>\<open>seq\<close>.  A read that returns \<open>-1\<close> leaves the
  \<^verbatim>\<open>switch\<close>; one that returns 0 leaves the byte of \<^verbatim>\<open>seq\<close> as it was.
\<close>

definition seq_byte :: "world \<Rightarrow> nat \<Rightarrow> rd \<Rightarrow> char" where
  "seq_byte w k r = (case r of Rd x \<Rightarrow> x | _ \<Rightarrow> seq_uninit w k)"

definition edit_escape ::
  "callbacks \<Rightarrow> LinenoiseState \<Rightarrow> world \<Rightarrow> rd list \<Rightarrow> edit_result option" where
  "edit_escape cb ls w inp =
     (case read_ifd inp of
        (RdErr, inp) \<Rightarrow> Some (Continue ls w inp)
      | (r0, inp) \<Rightarrow>
          (case read_ifd inp of
             (RdErr, inp) \<Rightarrow> Some (Continue ls w inp)
           | (r1, inp) \<Rightarrow>
               (let s0 = seq_byte w 0 r0; s1 = seq_byte w 1 r1
                in if s0 = CHR ''['' then
                     (if (of_char s1 :: nat) \<ge> of_char CHR ''0'' \<and> (of_char s1 :: nat) \<le> of_char CHR ''9''
                      then
                        (case read_ifd inp of
                           (RdErr, inp) \<Rightarrow> Some (Continue ls w inp)
                         | (r2, inp) \<Rightarrow>
                             if seq_byte w 2 r2 = CHR ''~'' \<and> s1 = CHR ''3''
                             then go_on inp (LinenoiseEditDelete cb ls w)
                             else Some (Continue ls w inp))
                      else if s1 = CHR ''A''
                      then go_on inp (LinenoiseEditHistoryNext cb ls LINENOISE_HISTORY_PREV w)
                      else if s1 = CHR ''B''
                      then go_on inp (LinenoiseEditHistoryNext cb ls LINENOISE_HISTORY_NEXT w)
                      else if s1 = CHR ''C'' then go_on inp (LinenoiseEditMoveRight cb ls w)
                      else if s1 = CHR ''D'' then go_on inp (LinenoiseEditMoveLeft cb ls w)
                      else if s1 = CHR ''H'' then go_on inp (LinenoiseEditMoveHome cb ls w)
                      else if s1 = CHR ''F'' then go_on inp (LinenoiseEditMoveEnd cb ls w)
                      else Some (Continue ls w inp))
                   else if s0 = CHR ''O'' then
                     (if s1 = CHR ''H'' then go_on inp (LinenoiseEditMoveHome cb ls w)
                      else if s1 = CHR ''F'' then go_on inp (LinenoiseEditMoveEnd cb ls w)
                      else Some (Continue ls w inp))
                   else Some (Continue ls w inp))))"

text \<open>
  The \<^verbatim>\<open>switch (c)\<close>.  \<^verbatim>\<open>free(ls->history[ls->history_len])\<close> leaves the slot as it is; it
  traps when the array is \<^verbatim>\<open>NULL\<close> and, for \<^verbatim>\<open>CTRL_D\<close> where nothing guards it, when there
  is no slot to free.
\<close>

definition edit_dispatch ::
  "callbacks \<Rightarrow> char \<Rightarrow> LinenoiseState \<Rightarrow> world \<Rightarrow> rd list \<Rightarrow> edit_result option" where
  "edit_dispatch cb c ls w inp =
     (if c = ENTER then
        (if history_len ls > 0 \<and> history ls = None then None
         else
           (let ls = (if history_len ls > 0 then ls\<lparr>history_len := history_len ls - 1\<rparr> else ls)
            in case (if mlmode ls then LinenoiseEditMoveEnd cb ls w else Some (ls, w)) of
                 None \<Rightarrow> None
               | Some (ls, w) \<Rightarrow>
                   map_option (\<lambda>(ls, w). Return (to_int (len ls)) ls w inp)
                     (if l_HintsCallback cb \<noteq> None
                      then RefreshLine (cb\<lparr>l_HintsCallback := None\<rparr>) ls w
                      else Some (ls, w))))
      else if c = CTRL_C then Some (Return (-1) ls (w\<lparr>errno := EAGAIN\<rparr>) inp)
      else if c = BACKSPACE \<or> c = CTRL_H then go_on inp (LinenoiseEditBackspace cb ls w)
      else if c = CTRL_D then
        (if len ls > 0 then go_on inp (LinenoiseEditDelete cb ls w)
         else
           (let ls = ls\<lparr>history_len := history_len ls - 1\<rparr>
            in if history ls = None \<or> history_len ls < 0 then None
               else Some (Return (-1) ls w inp)))
      else if c = CTRL_T then
        (if pos ls > 0 \<and> pos ls < len ls then
           (let aux = buf ls (unat (pos ls - 1));
                ls = ls\<lparr>buf := (buf ls)(unat (pos ls - 1) := buf ls (unat (pos ls)))\<rparr>;
                ls = ls\<lparr>buf := (buf ls)(unat (pos ls) := aux)\<rparr>;
                ls = (if pos ls \<noteq> len ls - 1 then ls\<lparr>pos := pos ls + 1\<rparr> else ls)
            in go_on inp (RefreshLine cb ls w))
         else Some (Continue ls w inp))
      else if c = CTRL_B then go_on inp (LinenoiseEditMoveLeft cb ls w)
      else if c = CTRL_F then go_on inp (LinenoiseEditMoveRight cb ls w)
      else if c = CTRL_P then go_on inp (LinenoiseEditHistoryNext cb ls LINENOISE_HISTORY_PREV w)
      else if c = CTRL_N then go_on inp (LinenoiseEditHistoryNext cb ls LINENOISE_HISTORY_NEXT w)
      else if c = ESC then edit_escape cb ls w inp
      else if c = CTRL_U then
        (let ls = ls\<lparr>buf := (buf ls)(0 := NUL)\<rparr>;
             ls = ls\<lparr>len := 0\<rparr>;
             ls = ls\<lparr>pos := len ls\<rparr>
         in go_on inp (RefreshLine cb ls w))
      else if c = CTRL_K then
        (let ls = ls\<lparr>buf := (buf ls)(unat (pos ls) := NUL)\<rparr>;
             ls = ls\<lparr>len := pos ls\<rparr>
         in go_on inp (RefreshLine cb ls w))
      else if c = CTRL_A then go_on inp (LinenoiseEditMoveHome cb ls w)
      else if c = CTRL_E then go_on inp (LinenoiseEditMoveEnd cb ls w)
      else if c = CTRL_L then go_on inp (RefreshLine cb ls (LinenoiseClearScreen ls w))
      else if c = CTRL_W then go_on inp (LinenoiseEditDeletePrevWord cb ls w)
      else
        (case LinenoiseEditInsert cb ls c w of
           None \<Rightarrow> None
         | Some (r, ls, w) \<Rightarrow> if r \<noteq> 0 then Some (Return (-1) ls w inp) else Some (Continue ls w inp)))"

text \<open>
  One turn: the read, the completion sub-mode when \<^verbatim>\<open>TAB\<close> is read and a completion
  callback is set, then the \<^verbatim>\<open>switch\<close>.  \<^verbatim>\<open>c = CompleteLine(ls)\<close> converts the \<^verbatim>\<open>int\<close> to
  \<^verbatim>\<open>char\<close>.
\<close>

definition edit_step ::
  "callbacks \<Rightarrow> LinenoiseState \<Rightarrow> world \<Rightarrow> rd list \<Rightarrow> edit_result option" where
  "edit_step cb ls w inp =
     (case read_ifd inp of
        (Rd c, inp) \<Rightarrow>
          if c = TAB \<and> l_CompletionCallback cb \<noteq> None then
            (case CompleteLine cb ls w inp of
               None \<Rightarrow> None
             | Some (r, ls, w, inp) \<Rightarrow>
                 (let c = (char_of r :: char)
                  in if schar c < 0 then Some (Return (to_int (len ls)) ls w inp)
                     else if c = NUL then Some (Continue ls w inp)
                     else edit_dispatch cb c ls w inp))
          else edit_dispatch cb c ls w inp
      | (r, inp) \<Rightarrow> Some (Return (to_int (len ls)) ls w inp))"

text \<open>Every turn that goes on has consumed input, so the loop is a total function.\<close>

lemma complete_loop_input:
  "complete_loop cb lc i ls w inp = Some (r, ls', w', inp') \<Longrightarrow> length inp' \<le> length inp"
proof (induction inp arbitrary: i ls w)
  case Nil
  then show ?case
    by (subst (asm) complete_loop.simps) (auto split: option.splits if_splits)
next
  case (Cons a inp)
  from Cons.prems show ?case
    by (subst (asm) complete_loop.simps)
      (auto split: option.splits if_splits rd.splits simp: Let_def dest!: Cons.IH)
qed

lemma CompleteLine_input:
  "CompleteLine cb ls w inp = Some (r, ls', w', inp') \<Longrightarrow> length inp' \<le> length inp"
  by (auto simp: CompleteLine_def Let_def split: option.splits if_splits dest: complete_loop_input)

lemma go_on_input: "go_on inp r = Some (Continue ls' w' inp') \<Longrightarrow> inp' = inp"
  by (auto simp: go_on_def)

lemma read_ifd_input: "read_ifd inp = (r, inp') \<Longrightarrow> length inp' \<le> length inp"
  by (cases inp) auto

lemma edit_escape_input:
  "edit_escape cb ls w inp = Some (Continue ls' w' inp') \<Longrightarrow> length inp' \<le> length inp"
  unfolding edit_escape_def
  by (auto split: prod.splits rd.splits if_splits simp: Let_def dest!: go_on_input read_ifd_input)

lemma edit_dispatch_input:
  "edit_dispatch cb c ls w inp = Some (Continue ls' w' inp') \<Longrightarrow> length inp' \<le> length inp"
  unfolding edit_dispatch_def
  by (auto split: option.splits if_splits simp: Let_def dest!: go_on_input edit_escape_input)

lemma edit_step_input:
  "edit_step cb ls w inp = Some (Continue ls' w' inp') \<Longrightarrow> length inp' < length inp"
  unfolding edit_step_def
  by (cases inp)
    (auto split: option.splits if_splits rd.splits simp: Let_def
       dest!: edit_dispatch_input CompleteLine_input)

function LinenoiseEdit_loop ::
  "callbacks \<Rightarrow> LinenoiseState \<Rightarrow> world \<Rightarrow> rd list
     \<Rightarrow> (int \<times> LinenoiseState \<times> world \<times> rd list) option" where
  "LinenoiseEdit_loop cb ls w inp =
     (case edit_step cb ls w inp of
        None \<Rightarrow> None
      | Some (Continue ls' w' inp') \<Rightarrow> LinenoiseEdit_loop cb ls' w' inp'
      | Some (Return r ls' w' inp') \<Rightarrow> Some (r, ls', w', inp'))"
  by pat_completeness auto
termination
  by (relation "measure (\<lambda>(cb, ls, w, inp). length inp)") (auto simp: edit_step_input)

declare LinenoiseEdit_loop.simps [simp del]

definition LinenoiseEdit ::
  "callbacks \<Rightarrow> LinenoiseState \<Rightarrow> world \<Rightarrow> rd list
     \<Rightarrow> (int \<times> LinenoiseState \<times> world \<times> rd list) option" where
  "LinenoiseEdit cb ls w inp =
     (let wr = write_ofd w (map (cstr_mem (prompt ls)) [0..<unat (plen ls)])
      in if fst wr = -1 then Some (-1, ls, snd wr, inp)
         else LinenoiseEdit_loop cb ls (snd wr) inp)"

text \<open>
  The states at the quiescent points of the loop: after each turn, whether it goes on or
  returns.
\<close>

inductive quiescent ::
  "callbacks \<Rightarrow> LinenoiseState \<Rightarrow> world \<Rightarrow> rd list \<Rightarrow> LinenoiseState \<Rightarrow> bool"
  for cb :: callbacks where
  turn_goes_on: "edit_step cb ls w inp = Some (Continue ls' w' inp') \<Longrightarrow> quiescent cb ls w inp ls'"
| turn_returns: "edit_step cb ls w inp = Some (Return r ls' w' inp') \<Longrightarrow> quiescent cb ls w inp ls'"
| later_turn: "edit_step cb ls w inp = Some (Continue ls' w' inp') \<Longrightarrow>
     quiescent cb ls' w' inp' ls'' \<Longrightarrow> quiescent cb ls w inp ls''"

section \<open>Session lifecycle\<close>

definition LinenoiseRaw ::
  "callbacks \<Rightarrow> LinenoiseState \<Rightarrow> world \<Rightarrow> rd list
     \<Rightarrow> (int \<times> LinenoiseState \<times> world \<times> rd list) option" where
  "LinenoiseRaw cb ls w inp =
     (if buflen ls = 0 then Some (-1, ls, w\<lparr>errno := EINVAL\<rparr>, inp)
      else
        (case EnableRawMode ls w of
           (r, ls, w) \<Rightarrow>
             if r = -1 then Some (-1, ls, w, inp)
             else
               (case LinenoiseEdit cb ls w inp of
                  None \<Rightarrow> None
                | Some (count, ls, w, inp) \<Rightarrow>
                    (let (ls, w) = DisableRawMode ls w;
                         w = snd (write_ofd w [CHR 0x0A])
                     in Some (count, ls, w, inp)))))"

text \<open>
  The two fallbacks read \<^verbatim>\<open>stdin\<close>, which is the input of the model.  \<^verbatim>\<open>LinenoiseNoTTY\<close>
  (\<^verbatim>\<open>realloc\<close> taken to succeed) carries the line read so far.
\<close>

fun LinenoiseNoTTY :: "string \<Rightarrow> rd list \<Rightarrow> string option \<times> rd list" where
  "LinenoiseNoTTY line [] = (if line = [] then None else Some line, [])"
| "LinenoiseNoTTY line (Rd c # rest) =
     (if c = CHR 0x0A then (Some line, rest) else LinenoiseNoTTY (line @ [c]) rest)"
| "LinenoiseNoTTY line (r # rest) = (if line = [] then None else Some line, rest)"

definition c_tolower :: "char \<Rightarrow> char" where
  "c_tolower c =
     (if (of_char c :: nat) \<ge> 65 \<and> (of_char c :: nat) \<le> 90
      then ''abcdefghijklmnopqrstuvwxyz'' ! (of_char c - 65) else c)"

definition unsupported_term :: "string list" where
  "unsupported_term = [''dumb'', ''cons25'', ''emacs'']"

definition IsUnsupportedTerm :: "world \<Rightarrow> bool" where
  "IsUnsupportedTerm w =
     (case term_env w of
        None \<Rightarrow> False
      | Some t \<Rightarrow> list_ex (\<lambda>u. map c_tolower t = map c_tolower u) unsupported_term)"

fun fgets_rd :: "nat \<Rightarrow> rd list \<Rightarrow> string \<times> rd list" where
  "fgets_rd n [] = ([], [])"
| "fgets_rd n (Rd c # rest) =
     (if n = 0 then ([], Rd c # rest)
      else if c = CHR 0x0A then ([c], rest)
      else (case fgets_rd (n - 1) rest of (s, r) \<Rightarrow> (c # s, r)))"
| "fgets_rd n (r # rest) = ([], rest)"

definition store_cstr :: "(nat \<Rightarrow> char) \<Rightarrow> string \<Rightarrow> nat \<Rightarrow> char" where
  "store_cstr b s = (\<lambda>i. if i < length s then s ! i else if i = length s then NUL else b i)"

function strip_tail :: "(nat \<Rightarrow> char) \<Rightarrow> nat \<Rightarrow> nat \<Rightarrow> char" where
  "strip_tail b n =
     (if n > 0 \<and> (b (n - 1) = CHR 0x0A \<or> b (n - 1) = CHR 0x0D)
      then strip_tail (b(n - 1 := NUL)) (n - 1) else b)"
  by pat_completeness auto
termination
  by (relation "measure (\<lambda>(b, n). n)") auto

declare strip_tail.simps [simp del]

definition Linenoise ::
  "callbacks \<Rightarrow> LinenoiseState \<Rightarrow> world \<Rightarrow> rd list
     \<Rightarrow> (string option \<times> LinenoiseState \<times> world \<times> rd list) option" where
  "Linenoise cb ls w inp =
     (let ls = ls\<lparr>buf := (buf ls)(0 := NUL)\<rparr>
      in if \<not> isatty_ifd w then
           (case LinenoiseNoTTY [] inp of (line, inp) \<Rightarrow> Some (line, ls, w, inp))
         else if IsUnsupportedTerm w then
           (let w = snd (write_ofd w (prompt ls))
            in case fgets_rd (unat (buflen ls) - 1) inp of
                 (got, inp) \<Rightarrow>
                   if got = [] then Some (None, ls, w, inp)
                   else
                     (let ls = ls\<lparr>buf := store_cstr (buf ls) got\<rparr>;
                          ls = ls\<lparr>buf := strip_tail (buf ls) (strlen_buf (buf ls))\<rparr>;
                          w = snd (write_ofd w [CHR 0x0D])
                      in Some (Some (strdup_buf (buf ls)), ls, w, inp)))
         else
           (case LinenoiseRaw cb ls w inp of
              None \<Rightarrow> None
            | Some (count, ls, w, inp) \<Rightarrow>
                if count = -1 then Some (None, ls, w, inp)
                else Some (Some (strdup_buf (buf ls)), ls, snd (write_ofd w [CHR 0x0D]), inp)))"

text \<open>
  \<^verbatim>\<open>LinenoiseCreate\<close> (\<^verbatim>\<open>malloc\<close> taken to succeed): the session is zeroed, its fields are
  set, and the empty string is added to the history.
\<close>

definition LinenoiseCreate ::
  "int \<Rightarrow> int \<Rightarrow> int \<Rightarrow> string \<Rightarrow> world \<Rightarrow> LinenoiseState option" where
  "LinenoiseCreate ls_stdin ls_stdout ls_stderr prompt0 w =
     (let ls = \<lparr>ifd = ls_stdin, ofd = ls_stdout, efd = ls_stderr,
                buf = heap_junk w, buflen = of_nat LINENOISE_MAX_LINE,
                prompt = prompt0, plen = of_nat (length prompt0),
                pos = 0, oldpos = 0, len = 0,
                cols = of_int_sz (get_columns w), maxrows = 0, history_index = 0,
                orig_termios = \<lparr>c_iflag = 0, c_oflag = 0, c_cflag = 0, c_lflag = 0, c_cc = (\<lambda>i. 0)\<rparr>,
                rawmode = False, mlmode = False, nonblock = False,
                history_max_len = LINENOISE_DEFAULT_HISTORY_MAX_LEN,
                history_len = 0, history = None\<rparr>;
          ls = ls\<lparr>buf := memset (buf ls) NUL (unat (buflen ls))\<rparr>;
          ls = ls\<lparr>buflen := buflen ls - 1\<rparr>
      in map_option snd (LinenoiseHistoryAdd ls []))"

section \<open>Raw mode\<close>

text \<open>
  Claim C1.  Raw-mode enable on a file descriptor that is a terminal, with \<^verbatim>\<open>tcgetattr\<close>
  and \<^verbatim>\<open>tcsetattr\<close> succeeding, returns success and should leave the session's
  \<open>rawmode\<close> flag true.  The code returns 0, saves the attributes and puts the terminal
  in raw mode, but the assignment before \<^verbatim>\<open>return 0\<close> stores \<^verbatim>\<open>false\<close>: whatever the session
  was, \<open>rawmode\<close> is false afterwards.
\<close>

theorem EnableRawMode_success_clears_rawmode:
  "EnableRawMode ls (w\<lparr>isatty_ifd := True, tcgetattr_ok := True, tcsetattr_ok := True\<rparr>) =
     (0, ls\<lparr>orig_termios := term_attr w, rawmode := False\<rparr>,
      w\<lparr>isatty_ifd := True, tcgetattr_ok := True, tcsetattr_ok := True,
        term_attr := raw_attr (term_attr w)\<rparr>)"
  by (simp add: EnableRawMode_def Let_def)

text \<open>
  The flag is what \<^verbatim>\<open>DisableRawMode\<close> tests, so after a successful enable it restores
  nothing: the terminal stays in raw mode.
\<close>

lemma DisableRawMode_after_enable:
  "EnableRawMode ls w = (0, ls', w') \<Longrightarrow> DisableRawMode ls' w' = (ls', w')"
  by (auto simp: EnableRawMode_def DisableRawMode_def Let_def split: if_splits)

section \<open>The refresh changes nothing of the edit buffer\<close>



lemma slide_window_total:
  "cl \<noteq> 0 \<Longrightarrow> \<exists>r. slide_window pl cl off ln ps = Some r"
proof (induction "unat (pl + ps)" arbitrary: off ln ps rule: less_induct)
  case less
  show ?case
  proof (cases "cl \<le> pl + ps")
    case True
    with less.prems have nz: "pl + ps \<noteq> 0"
      by auto
    have e: "pl + (ps - 1) = pl + ps - 1"
      by simp
    have "unat (pl + (ps - 1)) < unat (pl + ps)"
      unfolding e by (rule measure_unat [OF nz])
    from less.hyps [OF this less.prems, of "off + 1" "ln - 1"] True show ?thesis
      by (subst slide_window.simps) simp
  next
    case False
    then show ?thesis
      by (subst slide_window.simps) simp
  qed
qed

lemma RefreshSingleLine_total:
  "cols l \<noteq> 0 \<Longrightarrow> \<exists>r. RefreshSingleLine cb l w = Some r"
  unfolding RefreshSingleLine_def single_line_window_def
  using slide_window_total [of "cols l" "of_nat (length (prompt l))" 0 "len l" "pos l"]
  by (auto simp: Let_def split: option.splits)



section \<open>The invariant of the edit buffer\<close>

text \<open>
  The cursor is inside the line, the line has at most \<open>buflen\<close> bytes and is terminated,
  and \<open>buflen\<close> is what \<^verbatim>\<open>LinenoiseCreate\<close> sets it to: one less than the size of the
  buffer.  So the line and its terminator are inside the buffer.
\<close>

definition edit_inv :: "LinenoiseState \<Rightarrow> bool" where
  "edit_inv l \<longleftrightarrow>
     pos l \<le> len l \<and> len l \<le> buflen l \<and> buf l (unat (len l)) = NUL \<and>
     unat (buflen l) = LINENOISE_MAX_LINE - 1"



















lemma edit_inv_frame: "edit_inv l \<Longrightarrow> edit_inv (l\<lparr>maxrows := m, oldpos := p\<rparr>)"
  by (simp add: edit_inv_def)





















section \<open>A concrete session\<close>

text \<open>
  A terminal of 80 columns on which every call succeeds, no callbacks, and the session
  \<^verbatim>\<open>LinenoiseCreate(0, 1, 2, "> ")\<close> makes there.
\<close>

definition tty0 :: world where
  "tty0 = \<lparr>isatty_ifd = True, tcgetattr_ok = True, tcsetattr_ok = True,
            term_attr = \<lparr>c_iflag = 0x500, c_oflag = 0x5, c_cflag = 0xBF, c_lflag = 0x8A3B,
                          c_cc = (\<lambda>i. 0)\<rparr>,
            term_env = None, errno = 0, obytes = [], ebytes = [], ofail = False,
            seq_uninit = (\<lambda>i. NUL), get_columns = 80, heap_junk = (\<lambda>i. CHR ''?'')\<rparr>"

definition no_callbacks :: callbacks where
  "no_callbacks = \<lparr>l_CompletionCallback = None, l_HintsCallback = None\<rparr>"

definition s0 :: LinenoiseState where
  "s0 = the (LinenoiseCreate 0 1 2 ''> '' tty0)"

lemma s0_fields:
  "len s0 = 0" "pos s0 = 0" "cols s0 = 80" "prompt s0 = ''> ''" "plen s0 = 2" "buflen s0 = 4095"
  "mlmode s0 = False" "history_len s0 = 1" "history_max_len s0 = 100" "history_index s0 = 0"
  "buf s0 0 = NUL" "oldpos s0 = 0" "maxrows s0 = 0" "rawmode s0 = False"
  by (simp_all add: s0_def LinenoiseCreate_def tty0_def LinenoiseHistoryAdd_def Let_def
      LINENOISE_DEFAULT_HISTORY_MAX_LEN_def history_slot_def LINENOISE_MAX_LINE_def of_int_sz_def
      memset_def)

section \<open>The invariant along the editing loop\<close>

lemma LinenoiseEdit_loop_quiescent:
  "LinenoiseEdit_loop cb ls w inp = Some (r, ls', w', inp') \<Longrightarrow> quiescent cb ls w inp ls'"
proof (induction cb ls w inp rule: LinenoiseEdit_loop.induct)
  case (1 cb ls w inp)
  from "1.prems" show ?case
    apply (subst (asm) LinenoiseEdit_loop.simps)
    apply (auto split: option.splits edit_result.splits intro: quiescent.intros dest: "1.IH")
    done
qed

lemma plain_key:
  "CHR ''a'' \<noteq> TAB" "CHR ''a'' \<noteq> ENTER" "CHR ''a'' \<noteq> CTRL_C" "CHR ''a'' \<noteq> BACKSPACE" "CHR ''a'' \<noteq> CTRL_H"
  "CHR ''a'' \<noteq> CTRL_D" "CHR ''a'' \<noteq> CTRL_T" "CHR ''a'' \<noteq> CTRL_B" "CHR ''a'' \<noteq> CTRL_F" "CHR ''a'' \<noteq> CTRL_P"
  "CHR ''a'' \<noteq> CTRL_N" "CHR ''a'' \<noteq> ESC" "CHR ''a'' \<noteq> CTRL_U" "CHR ''a'' \<noteq> CTRL_K" "CHR ''a'' \<noteq> CTRL_A"
  "CHR ''a'' \<noteq> CTRL_E" "CHR ''a'' \<noteq> CTRL_L" "CHR ''a'' \<noteq> CTRL_W"
  by (simp_all add: TAB_def ENTER_def CTRL_C_def BACKSPACE_def CTRL_H_def CTRL_D_def CTRL_T_def
      CTRL_B_def CTRL_F_def CTRL_P_def CTRL_N_def ESC_def CTRL_U_def CTRL_K_def CTRL_A_def
      CTRL_E_def CTRL_L_def CTRL_W_def)

lemma RefreshLine_single:
  assumes "cols X \<noteq> 0" "\<not> mlmode X"
  shows "RefreshLine cb X w = Some (X, the (RefreshSingleLine cb X w))"
  using RefreshSingleLine_total [OF assms(1), of cb w] assms(2)
  by (auto simp: RefreshLine_def)

lemma ofail_write_ofd: "ofail (snd (write_ofd w s)) = ofail w"
  by (simp add: write_ofd_def)

lemma ofail_RefreshSingleLine:
  assumes "cols X \<noteq> 0"
  shows "ofail (the (RefreshSingleLine cb X w)) = ofail w"
  using RefreshSingleLine_total [OF assms(1), of cb w]
  by (auto simp: RefreshSingleLine_def Let_def ofail_write_ofd split: option.splits)

lemma append_step:
  assumes "len ls < buflen ls" "len ls = pos ls" "cols ls \<noteq> 0" "\<not> mlmode ls" "\<not> ofail w"
  shows "\<exists>ls' w'. edit_step no_callbacks ls w (Rd (CHR ''a'') # rest) = Some (Continue ls' w' rest)
           \<and> len ls' = len ls + 1 \<and> pos ls' = len ls' \<and> buflen ls' = buflen ls
           \<and> cols ls' = cols ls \<and> \<not> mlmode ls' \<and> \<not> ofail w'"
  using assms
  by (simp add: edit_step_def edit_dispatch_def plain_key LinenoiseEditInsert_def Let_def
      RefreshLine_single ofail_RefreshSingleLine ofail_write_ofd no_callbacks_def write_ofd_def)

lemma LinenoiseEdit_loop_end:
  "LinenoiseEdit_loop cb ls w [] = Some (to_int (len ls), ls, w, [])"
  by (subst LinenoiseEdit_loop.simps) (simp add: edit_step_def)

lemma unat_inc: "(x::size_t) < y \<Longrightarrow> unat (x + 1) = unat x + 1"
  by unat_arith

lemma append_run:
  assumes "unat (len ls) + n \<le> unat (buflen ls)" "len ls = pos ls" "cols ls \<noteq> 0" "\<not> mlmode ls"
    "\<not> ofail w"
  shows "\<exists>r ls' w'. LinenoiseEdit_loop no_callbacks ls w (replicate n (Rd (CHR ''a''))) = Some (r, ls', w', [])
           \<and> unat (len ls') = unat (len ls) + n \<and> buflen ls' = buflen ls
           \<and> pos ls' = len ls' \<and> cols ls' = cols ls \<and> \<not> mlmode ls'"
  using assms
proof (induction n arbitrary: ls w)
  case 0
  then show ?case by (simp add: LinenoiseEdit_loop_end)
next
  case (Suc n)
  have lt: "len ls < buflen ls"
    using Suc.prems(1) by (simp add: word_less_nat_alt)
  from append_step [OF lt Suc.prems(2,3,4,5), of "replicate n (Rd (CHR ''a''))"]
  obtain l1 w1 where st: "edit_step no_callbacks ls w (Rd (CHR ''a'') # replicate n (Rd (CHR ''a''))) = Some (Continue l1 w1 (replicate n (Rd (CHR ''a''))))"
    and f: "len l1 = len ls + 1" "pos l1 = len l1" "buflen l1 = buflen ls" "cols l1 = cols ls" "\<not> mlmode l1" "\<not> ofail w1"
    by blast
  have u: "unat (len l1) = unat (len ls) + 1"
    using unat_inc [OF lt] f(1) by simp
  have "unat (len l1) + n \<le> unat (buflen l1)"
    using Suc.prems(1) u f(3) by simp
  moreover have "len l1 = pos l1" "cols l1 \<noteq> 0"
    using f(2,4) Suc.prems(3) by simp_all
  ultimately have "\<exists>r ls' w'. LinenoiseEdit_loop no_callbacks l1 w1 (replicate n (Rd (CHR ''a''))) = Some (r, ls', w', [])
           \<and> unat (len ls') = unat (len l1) + n \<and> buflen ls' = buflen l1
           \<and> pos ls' = len ls' \<and> cols ls' = cols l1 \<and> \<not> mlmode ls'"
    using f(5,6) by (intro Suc.IH)
  then obtain r ls' w' where "LinenoiseEdit_loop no_callbacks l1 w1 (replicate n (Rd (CHR ''a''))) = Some (r, ls', w', [])"
    "unat (len ls') = unat (len l1) + n" "buflen ls' = buflen l1"
    "pos ls' = len ls'" "cols ls' = cols l1" "\<not> mlmode ls'"
    by auto
  with st u f(3,4) show ?case
    by (subst LinenoiseEdit_loop.simps) simp
qed


text \<open>The session after \<open>n\<close> letters were typed into the fresh session.\<close>

definition typed :: "nat \<Rightarrow> LinenoiseState" where
  "typed n = fst (snd (the (LinenoiseEdit_loop no_callbacks s0 tty0 (replicate n (Rd (CHR ''a''))))))"

lemma typed_run:
  assumes "n \<le> 4095"
  shows "quiescent no_callbacks s0 tty0 (replicate n (Rd (CHR ''a''))) (typed n)"
    "unat (len (typed n)) = n" "buflen (typed n) = 4095"
    "pos (typed n) = len (typed n)" "cols (typed n) = 80" "\<not> mlmode (typed n)"
proof -
  have "unat (len s0) + n \<le> unat (buflen s0)" "len s0 = pos s0" "cols s0 \<noteq> 0" "\<not> mlmode s0"
    "\<not> ofail tty0"
    using assms by (simp_all add: s0_fields tty0_def)
  from append_run [OF this] obtain r ls' w' where
    run: "LinenoiseEdit_loop no_callbacks s0 tty0 (replicate n (Rd (CHR ''a''))) = Some (r, ls', w', [])"
    and f: "unat (len ls') = unat (len s0) + n" "buflen ls' = buflen s0"
      "pos ls' = len ls'" "cols ls' = cols s0" "\<not> mlmode ls'"
    by blast
  have t: "typed n = ls'"
    by (simp add: typed_def run)
  from LinenoiseEdit_loop_quiescent [OF run] t
  show "quiescent no_callbacks s0 tty0 (replicate n (Rd (CHR ''a''))) (typed n)"
    by simp
  from f t show "unat (len (typed n)) = n" "buflen (typed n) = 4095"
    "pos (typed n) = len (typed n)" "cols (typed n) = 80" "\<not> mlmode (typed n)"
    by (simp_all add: s0_fields)
qed




section \<open>Kill-previous-word at the start of the line\<close>







section \<open>Insertion into a full buffer\<close>

text \<open>
  Claim C10.  With \<open>len \<ge> buflen\<close> \<^verbatim>\<open>LinenoiseEditInsert\<close> changes nothing (session and
  terminal) and returns 0.  Whenever it returns, it returns 0 or \<open>-1\<close>, and \<open>-1\<close> exactly
  when the byte was appended on the fast path (single-line mode, prompt and line below
  \<open>cols\<close>, no hints callback) and the one-byte \<^verbatim>\<open>write\<close> failed.
\<close>

theorem insert_at_capacity:
  "(buflen l \<le> len l \<longrightarrow> LinenoiseEditInsert cb l c w = Some (0, l, w))
   \<and> (LinenoiseEditInsert cb l c w = Some (r, l', w') \<longrightarrow>
        (r = 0 \<or> r = -1) \<and>
        (r = -1 \<longleftrightarrow> len l < buflen l \<and> len l = pos l \<and> \<not> mlmode l
           \<and> plen l + (len l + 1) < cols l \<and> l_HintsCallback cb = None \<and> ofail w))"
  by (auto simp: LinenoiseEditInsert_def Let_def write_ofd_def split: if_splits)

theorem insert_at_capacity_witness:
  "buflen (typed 4095) \<le> len (typed 4095)
   \<and> LinenoiseEditInsert no_callbacks (typed 4095) (CHR ''b'') tty0 = Some (0, typed 4095, tty0)
   \<and> fst (the (LinenoiseEditInsert no_callbacks s0 (CHR ''b'') (tty0\<lparr>ofail := True\<rparr>))) = -1"
proof -
  have "unat (len (typed 4095)) = 4095" "buflen (typed 4095) = 4095"
    by (rule typed_run, simp)+
  then have full: "buflen (typed 4095) \<le> len (typed 4095)"
    by (simp add: word_le_nat_alt)
  have "\<exists>l' w'. LinenoiseEditInsert no_callbacks s0 (CHR ''b'') (tty0\<lparr>ofail := True\<rparr>) = Some (- 1, l', w')"
    by (simp add: LinenoiseEditInsert_def Let_def s0_fields no_callbacks_def write_ofd_def)
  then obtain l' w' where f: "LinenoiseEditInsert no_callbacks s0 (CHR ''b'') (tty0\<lparr>ofail := True\<rparr>) = Some (- 1, l', w')"
    by blast
  from insert_at_capacity [of "typed 4095" no_callbacks "CHR ''b''" tty0] full
    insert_at_capacity [of s0 no_callbacks "CHR ''b''" "tty0\<lparr>ofail := True\<rparr>" "- 1" l' w'] f
  show ?thesis by simp
qed

section \<open>Clearing the buffer\<close>

lemma ClearBuffer_single:
  assumes "cols ls \<noteq> 0" "\<not> mlmode ls"
  shows "\<exists>w'. LinenoiseClearBuffer cb ls w
     = Some (ls\<lparr>buf := memset (buf ls) NUL (unat (buflen ls)), pos := 0\<rparr>, w')"
  using assms by (simp add: LinenoiseClearBuffer_def Let_def RefreshLine_single)

lemma Linenoise_no_input:
  assumes "isatty_ifd w" "term_env w = None" "tcgetattr_ok w" "tcsetattr_ok w" "\<not> ofail w"
    "buflen ls \<noteq> 0"
  shows "\<exists>line ls' w'. Linenoise cb ls w [] = Some (line, ls', w', [])
    \<and> len ls' = len ls \<and> pos ls' = pos ls"
  using assms
  by (auto simp: Linenoise_def LinenoiseRaw_def LinenoiseEdit_def EnableRawMode_def DisableRawMode_def
      IsUnsupportedTerm_def Let_def write_ofd_def LinenoiseEdit_loop_end split: prod.splits)

text \<open>The session after two letters were typed and the host called \<^verbatim>\<open>LinenoiseClearBuffer\<close>.\<close>

definition cleared :: LinenoiseState where
  "cleared = fst (the (LinenoiseClearBuffer no_callbacks (typed 2) tty0))"

text \<open>
  Claim C3.  After \<^verbatim>\<open>LinenoiseClearBuffer\<close>, and at the start of each \<^verbatim>\<open>Linenoise\<close> call, the
  edit buffer should be empty: \<open>len = 0\<close>, \<open>pos = 0\<close>, \<open>buf[0] = 0\<close>.  The code zeroes the
  bytes and \<open>pos\<close> but never assigns \<open>len\<close>, and \<^verbatim>\<open>Linenoise\<close> only stores \<open>buf[0] = 0\<close>.
  With two letters typed, \<open>len\<close> is still 2 after the clear, and the next \<^verbatim>\<open>Linenoise\<close> call
  (here on an input that is at its end, so that nothing is edited) runs and returns with
  \<open>len = 2\<close>.
\<close>

theorem ClearBuffer_leaves_len:
  "unat (len (typed 2)) = 2
   \<and> LinenoiseClearBuffer no_callbacks (typed 2) tty0 \<noteq> None
   \<and> unat (len cleared) = 2 \<and> pos cleared = 0 \<and> buf cleared 0 = NUL
   \<and> Linenoise no_callbacks cleared tty0 [] \<noteq> None
   \<and> unat (len (fst (snd (the (Linenoise no_callbacks cleared tty0 []))))) = 2"
proof -
  have t: "unat (len (typed 2)) = 2" "buflen (typed 2) = 4095" "cols (typed 2) = 80" "\<not> mlmode (typed 2)"
    by (rule typed_run, simp)+
  from ClearBuffer_single [of "typed 2" no_callbacks tty0] t obtain w' where
    c: "LinenoiseClearBuffer no_callbacks (typed 2) tty0
     = Some ((typed 2)\<lparr>buf := memset (buf (typed 2)) NUL (unat (buflen (typed 2))), pos := 0\<rparr>, w')"
    by auto
  then have cl: "cleared = (typed 2)\<lparr>buf := memset (buf (typed 2)) NUL (unat (buflen (typed 2))), pos := 0\<rparr>"
    by (simp add: cleared_def)
  have f: "unat (len cleared) = 2" "pos cleared = 0" "buf cleared 0 = NUL" "buflen cleared \<noteq> 0"
    using t by (simp_all add: cl memset_def)
  from Linenoise_no_input [of tty0 cleared no_callbacks] f(4) obtain line ls' w'' where
    "Linenoise no_callbacks cleared tty0 [] = Some (line, ls', w'', [])" "len ls' = len cleared"
    by (auto simp: tty0_def)
  with t c f show ?thesis by simp
qed

section \<open>The scratch slot of the history\<close>

lemma s0_history: "history s0 = Some ((\<lambda>i. None)(0 := Some []))"
  by (simp add: s0_def LinenoiseCreate_def tty0_def LinenoiseHistoryAdd_def Let_def
      LINENOISE_DEFAULT_HISTORY_MAX_LEN_def history_slot_def LINENOISE_MAX_LINE_def of_int_sz_def)

text \<open>
  The fresh session after the host added the entry \<^verbatim>\<open>"one"\<close> (as a host does that loads its
  history right after \<^verbatim>\<open>LinenoiseCreate\<close>); that session after \<^verbatim>\<open>LinenoiseEdit\<close> read \<^verbatim>\<open>ENTER\<close>;
  and after it read the letter \<^verbatim>\<open>x\<close> and then \<^verbatim>\<open>CTRL_P\<close> (history up).
\<close>

definition s1 :: LinenoiseState where
  "s1 = snd (the (LinenoiseHistoryAdd s0 ''one''))"

lemma s1_eq: "s1 = s0\<lparr>history := Some ((\<lambda>i. None)(0 := Some [], 1 := Some ''one'')), history_len := 2\<rparr>"
  by (simp add: s1_def LinenoiseHistoryAdd_def Let_def s0_fields s0_history history_slot_def)

lemma upt_2: "[0..<2] = [0, 1]" "[0..<1] = [0]"
  by (simp_all add: upt_rec)

lemma s1_entries: "history_entries s1 = [Some [], Some ''one'']"
  by (simp add: history_entries_def s1_eq history_slot_def s0_fields upt_2)

lemmas key_defs = TAB_def ENTER_def CTRL_C_def BACKSPACE_def CTRL_H_def CTRL_D_def CTRL_T_def
  CTRL_B_def CTRL_F_def CTRL_P_def CTRL_N_def ESC_def CTRL_U_def CTRL_K_def CTRL_A_def
  CTRL_E_def CTRL_L_def CTRL_W_def

definition after_enter :: LinenoiseState where
  "after_enter = fst (snd (the (LinenoiseEdit no_callbacks s1 tty0 [Rd ENTER])))"

lemma after_enter_eq: "after_enter = s1\<lparr>history_len := 1\<rparr>"
  by (simp add: after_enter_def LinenoiseEdit_def write_ofd_def tty0_def LinenoiseEdit_loop.simps [of _ _ _ "_ # _"] edit_step_def edit_dispatch_def
      key_defs no_callbacks_def s1_eq s0_fields Let_def)

lemma after_enter_entries: "history_entries after_enter = [Some []]"
  by (simp add: after_enter_eq history_entries_def history_slot_def s1_eq s0_fields upt_2)

definition after_up :: LinenoiseState where
  "after_up = fst (snd (the (LinenoiseEdit no_callbacks s1 tty0 [Rd (CHR ''x''), Rd CTRL_P])))"

lemma after_up_entries: "history_entries after_up = [Some [], Some ''x'']"
  apply (simp add: after_up_def LinenoiseEdit_def LinenoiseEdit_loop.simps [of _ _ _ "_ # _"] LinenoiseEdit_loop_end edit_step_def edit_dispatch_def
      key_defs no_callbacks_def s1_eq s0_fields Let_def LinenoiseEditInsert_def write_ofd_def tty0_def
      LinenoiseEditHistoryNext_def go_on_def RefreshLine_single LINENOISE_HISTORY_PREV_def
      strdup_buf_def strlen_buf_def strlen_from.simps LINENOISE_MAX_LINE_def NUL_def upt_2
      history_entries_def history_slot_def)
  done


text \<open>
  Claim C4.  Every \<^verbatim>\<open>Linenoise\<close> call should append an empty scratch entry on entering the
  editing loop and free that entry on \<^verbatim>\<open>ENTER\<close> or \<^verbatim>\<open>CTRL_D\<close>, so that browsing never
  overwrites a stored entry.  The code adds the empty string once, in \<^verbatim>\<open>LinenoiseCreate\<close>
  (whose comment says the latest entry is always the current buffer), and never in
  \<^verbatim>\<open>LinenoiseEdit\<close>.  With the history \<^verbatim>\<open>["", "one"]\<close>, \<^verbatim>\<open>ENTER\<close> frees the stored entry
  \<^verbatim>\<open>"one"\<close>, and typing \<^verbatim>\<open>x\<close> then history-up overwrites \<^verbatim>\<open>"one"\<close> with \<^verbatim>\<open>"x"\<close>.
\<close>

theorem history_scratch_slot_missing:
  "history_entries s1 = [Some [], Some ''one'']
   \<and> history_entries after_enter = [Some []]
   \<and> history_entries after_up = [Some [], Some ''x'']"
  by (simp add: s1_entries after_up_entries after_enter_entries)

section \<open>History: the bound and the duplicates\<close>

text \<open>
  A sequence of calls of the two functions of the history, run from a session; the history
  as the two functions expect it (a length between 0 and the bound, an array when the length
  is not 0, no \<^verbatim>\<open>NULL\<close> among the entries in use); and the newest entry.
\<close>

datatype history_call = HistoryAdd string | HistorySetMaxLen int

fun history_calls :: "history_call list \<Rightarrow> LinenoiseState \<Rightarrow> LinenoiseState option" where
  "history_calls [] ls = Some ls"
| "history_calls (HistoryAdd line # cs) ls =
     (case LinenoiseHistoryAdd ls line of None \<Rightarrow> None | Some (r, ls') \<Rightarrow> history_calls cs ls')"
| "history_calls (HistorySetMaxLen n # cs) ls = history_calls cs (snd (LinenoiseHistorySetMaxLen ls n))"

definition history_ok :: "LinenoiseState \<Rightarrow> bool" where
  "history_ok ls \<longleftrightarrow>
     0 \<le> history_len ls \<and> history_len ls \<le> history_max_len ls \<and>
     (history_len ls = 0 \<or> history ls \<noteq> None) \<and> None \<notin> set (history_entries ls)"

definition newest :: "LinenoiseState \<Rightarrow> string option" where
  "newest ls = history_slot ls (history_len ls - 1)"

lemma history_entries_Some:
  "history ls = Some h \<Longrightarrow> history_entries ls = map h [0..<nat (history_len ls)]"
  by (simp add: history_entries_def history_slot_def)

lemma history_entries_empty: "history_len ls \<le> 0 \<Longrightarrow> history_entries ls = []"
  by (simp add: history_entries_def)

lemma set_tl_subset: "set (tl xs) \<subseteq> set xs"
  by (cases xs) auto

lemma map_upd_last: "map (h(n := x)) [0..<Suc n] = map h [0..<n] @ [x]"
  by simp

lemma map_shift: "map (memmove h 0 1 n) [0..<n] = tl (map h [0..<Suc n])"
proof -
  have "map (memmove h 0 1 n) [0..<n] = map (\<lambda>i. h (Suc i)) [0..<n]"
    by (simp add: memmove_def)
  also have "\<dots> = map h (map Suc [0..<n])"
    by simp
  also have "map Suc [0..<n] = [1..<Suc n]"
    by (simp add: map_Suc_upt)
  also have "map h [1..<Suc n] = tl (map h [0..<Suc n])"
    by (simp add: map_tl [symmetric] upt_conv_Cons del: upt_Suc)
  finally show ?thesis .
qed

lemma HistoryAdd_Some:
  assumes "history ls = Some h" "history_max_len ls \<noteq> 0"
  shows "LinenoiseHistoryAdd ls line =
     (if history_len ls \<noteq> 0 \<and> history_slot ls (history_len ls - 1) = None then None
      else if history_len ls \<noteq> 0 \<and> history_slot ls (history_len ls - 1) = Some line then Some (0, ls)
      else if history_len ls = history_max_len ls then
        (if history_len ls - 1 < 0 then None
         else Some (1, ls\<lparr>history := Some ((memmove h 0 1 (nat (history_max_len ls - 1)))
                                  (nat (history_len ls - 1) := Some line)),
                          history_len := history_len ls\<rparr>))
      else
        (if history_len ls < 0 then None
         else Some (1, ls\<lparr>history := Some (h(nat (history_len ls) := Some line)),
                          history_len := history_len ls + 1\<rparr>)))"
  using assms by (simp add: LinenoiseHistoryAdd_def Let_def)

lemma HistoryAdd_ok:
  assumes "history_ok ls"
  shows "\<exists>r ls'. LinenoiseHistoryAdd ls line = Some (r, ls') \<and> history_ok ls' \<and>
           history_max_len ls' = history_max_len ls \<and>
           (if history_max_len ls = 0 \<or> newest ls = Some line then r = 0 \<and> ls' = ls
            else r = 1 \<and> newest ls' = Some line \<and>
                 history_len ls' = (if history_len ls = history_max_len ls then history_len ls
                                    else history_len ls + 1) \<and>
                 history_entries ls' =
                   (if history_len ls = history_max_len ls then tl (history_entries ls)
                    else history_entries ls) @ [Some line])"
proof (cases "history_max_len ls = 0")
  case True
  with assms show ?thesis by (simp add: LinenoiseHistoryAdd_def)
next
  case mz: False
  show ?thesis
  proof (cases "history ls")
    case None
    with assms have z: "history_len ls = 0" by (simp add: history_ok_def)
    have n: "newest ls = None" by (simp add: newest_def history_slot_def None)
    have m: "0 < history_max_len ls" using assms mz z by (simp add: history_ok_def)
    show ?thesis
      using None z n mz m
      by (simp add: LinenoiseHistoryAdd_def Let_def history_slot_def history_ok_def newest_def
          history_entries_def)
  next
    case (Some h)
    from assms obtain k where k: "history_len ls = int k"
      by (auto simp: history_ok_def elim: nonneg_int_cases)
    have en: "history_entries ls = map h [0..<k]"
      using history_entries_Some [OF Some] k by simp
    have ni: "None \<notin> h ` {0..<k}"
      using assms en by (simp add: history_ok_def)
    have all: "h i \<noteq> None" if "i < k" for i
    proof
      assume "h i = None"
      moreover from that have "h i \<in> h ` {0..<k}" by simp
      ultimately show False using ni by simp
    qed
    have le: "int k \<le> history_max_len ls"
      using assms k by (simp add: history_ok_def)
    have nw: "newest ls = (if k = 0 then None else h (k - 1))"
      using k Some by (auto simp: newest_def history_slot_def nat_diff_distrib')
    show ?thesis
    proof (cases "k \<noteq> 0 \<and> h (k - 1) = Some line")
      case True
      then have "history_slot ls (history_len ls - 1) = Some line"
        using nw by (simp add: newest_def)
      with True k nw assms show ?thesis
        by (simp add: HistoryAdd_Some [OF Some mz])
    next
      case False
      have slot: "history_len ls \<noteq> 0 \<Longrightarrow> history_slot ls (history_len ls - 1) \<noteq> None"
        using all [of "k - 1"] nw k by (auto simp: newest_def split: if_splits)
      have ns: "\<not> (history_len ls \<noteq> 0 \<and> history_slot ls (history_len ls - 1) = Some line)"
        using False nw k by (auto simp: newest_def split: if_splits)
      have nn: "newest ls \<noteq> Some line"
        using False nw by auto
      show ?thesis
      proof (cases "int k = history_max_len ls")
        case full: True
        then have kp: "0 < k" using mz by auto
        then obtain j where j: "k = Suc j" by (cases k) auto
        define h' where "h' = (memmove h 0 1 j)(j := Some line)"
        define ls' where "ls' = ls\<lparr>history := Some h', history_len := int k\<rparr>"
        have f1: "history_len ls = history_max_len ls"
          using k full by simp
        have f2: "nat (history_max_len ls - 1) = j" "\<not> history_max_len ls - 1 < 0"
          using full [symmetric] j by simp_all
        have f3: "history_max_len ls = int k"
          using full by simp
        have c1: "\<not> (history_len ls \<noteq> 0 \<and> history_slot ls (history_len ls - 1) = None)"
          using slot by blast
        have c3: "\<not> history_len ls - 1 < 0"
          using k j by simp
        have "LinenoiseHistoryAdd ls line =
            Some (1, ls\<lparr>history := Some ((memmove h 0 1 (nat (history_max_len ls - 1)))
                                  (nat (history_len ls - 1) := Some line)),
                          history_len := history_len ls\<rparr>)"
          by (simp only: HistoryAdd_Some [OF Some mz] c1 ns c3 f1 [THEN eqTrueI] if_False if_True)
        also have "nat (history_max_len ls - 1) = j"
          by (rule f2)
        also have "nat (history_len ls - 1) = j"
          using k j by simp
        also have "history_len ls = int k"
          by (rule k)
        finally have r: "LinenoiseHistoryAdd ls line = Some (1, ls')"
          unfolding ls'_def h'_def .
        have "history_entries ls' = map h' [0..<Suc j]"
          using history_entries_Some [of ls' h'] j by (simp add: ls'_def nat_add_distrib)
        also have "\<dots> = map (memmove h 0 1 j) [0..<j] @ [Some line]"
          unfolding h'_def by (rule map_upd_last)
        also have "\<dots> = tl (map h [0..<Suc j]) @ [Some line]"
          by (simp only: map_shift)
        finally have e': "history_entries ls' = tl (history_entries ls) @ [Some line]"
          using en j by simp
        have "None \<notin> set (tl (map h [0..<k]))"
          using ni set_tl_subset [of "map h [0..<k]"] by auto
        then have "None \<notin> set (history_entries ls')"
          unfolding e' en by simp
        moreover have m': "history_max_len ls' = history_max_len ls"
          by (simp add: ls'_def)
        moreover have l': "history_len ls' = history_len ls"
          by (simp add: ls'_def k)
        moreover have "history ls' \<noteq> None"
          by (simp add: ls'_def)
        ultimately have ok': "history_ok ls'"
          using assms by (simp add: history_ok_def)
        have n': "newest ls' = Some line"
          by (simp add: newest_def ls'_def history_slot_def h'_def j)
        have "LinenoiseHistoryAdd ls line = Some (1, ls') \<and> history_ok ls' \<and>
           history_max_len ls' = history_max_len ls \<and>
           (if history_max_len ls = 0 \<or> newest ls = Some line then (1::int) = 0 \<and> ls' = ls
            else (1::int) = 1 \<and> newest ls' = Some line \<and>
                 history_len ls' = (if history_len ls = history_max_len ls then history_len ls
                                    else history_len ls + 1) \<and>
                 history_entries ls' =
                   (if history_len ls = history_max_len ls then tl (history_entries ls)
                    else history_entries ls) @ [Some line])"
          by (simp only: r ok' m' n' l' e' mz nn f1 simp_thms if_True if_False)
        then show ?thesis
          by blast
      next
        case nfull: False
        define ls' where "ls' = ls\<lparr>history := Some (h(k := Some line)), history_len := int k + 1\<rparr>"
        have f1: "history_len ls \<noteq> history_max_len ls"
          using nfull k by simp
        have c1: "\<not> (history_len ls \<noteq> 0 \<and> history_slot ls (history_len ls - 1) = None)"
          using slot by blast
        have c3: "\<not> history_len ls < 0"
          using k by simp
        have "LinenoiseHistoryAdd ls line =
            Some (1, ls\<lparr>history := Some (h(nat (history_len ls) := Some line)),
                          history_len := history_len ls + 1\<rparr>)"
          by (simp only: HistoryAdd_Some [OF Some mz] c1 ns c3 f1 [THEN eq_False [THEN iffD2]]
              if_False if_True)
        also have "nat (history_len ls) = k"
          using k by simp
        also have "history_len ls = int k"
          by (rule k)
        finally have r: "LinenoiseHistoryAdd ls line = Some (1, ls')"
          unfolding ls'_def .
        have e': "history_entries ls' = history_entries ls @ [Some line]"
          using en by (simp add: ls'_def history_entries_def history_slot_def nat_add_distrib)
        have m': "history_max_len ls' = history_max_len ls"
          by (simp add: ls'_def)
        have l': "history_len ls' = history_len ls + 1"
          by (simp add: ls'_def k)
        have "history ls' \<noteq> None"
          by (simp add: ls'_def)
        moreover have "None \<notin> set (history_entries ls')"
          unfolding e' en using ni by simp
        moreover have "history_len ls + 1 \<le> history_max_len ls"
          using le nfull k by simp
        ultimately have ok': "history_ok ls'"
          using assms by (simp add: history_ok_def l' m')
        have n': "newest ls' = Some line"
          by (simp add: newest_def ls'_def history_slot_def)
        have "LinenoiseHistoryAdd ls line = Some (1, ls') \<and> history_ok ls' \<and>
           history_max_len ls' = history_max_len ls \<and>
           (if history_max_len ls = 0 \<or> newest ls = Some line then (1::int) = 0 \<and> ls' = ls
            else (1::int) = 1 \<and> newest ls' = Some line \<and>
                 history_len ls' = (if history_len ls = history_max_len ls then history_len ls
                                    else history_len ls + 1) \<and>
                 history_entries ls' =
                   (if history_len ls = history_max_len ls then tl (history_entries ls)
                    else history_entries ls) @ [Some line])"
          by (simp only: r ok' m' n' l' e' mz nn f1 simp_thms if_True if_False)
        then show ?thesis
          by blast
      qed
    qed
  qed
qed

lemma SetMaxLen_reject: "n < 1 \<Longrightarrow> LinenoiseHistorySetMaxLen ls n = (0, ls)"
  by (simp add: LinenoiseHistorySetMaxLen_def)

lemma SetMaxLen_None:
  "\<not> n < 1 \<Longrightarrow> history ls = None \<Longrightarrow>
   LinenoiseHistorySetMaxLen ls n =
     (1, ls\<lparr>history_max_len := n, history_len := (if n < history_len ls then n else history_len ls)\<rparr>)"
  by (simp add: LinenoiseHistorySetMaxLen_def Let_def)

lemma SetMaxLen_Some:
  "\<not> n < 1 \<Longrightarrow> history ls = Some h \<Longrightarrow>
   LinenoiseHistorySetMaxLen ls n =
     (1, ls\<lparr>history := Some (memcpy (\<lambda>i. None) h
                     (nat (history_len ls - (if n < history_len ls then n else history_len ls)))
                     (nat (if n < history_len ls then n else history_len ls))),
             history_max_len := n,
             history_len := (if n < history_len ls then n else history_len ls)\<rparr>)"
  by (simp add: LinenoiseHistorySetMaxLen_def Let_def)

lemma map_memcpy: "map (memcpy d h off t) [0..<t] = drop off (map h [0..<off + t])"
proof -
  have "map (memcpy d h off t) [0..<t] = map (\<lambda>i. h (i + off)) [0..<t]"
    by (simp add: memcpy_def add.commute)
  also have "\<dots> = map h (map (\<lambda>i. i + off) [0..<t])"
    by simp
  also have "\<dots> = map h [off..<t + off]"
    by (simp only: map_add_upt)
  also have "\<dots> = drop off (map h [0..<off + t])"
    by (simp add: drop_map add.commute)
  finally show ?thesis .
qed

lemma SetMaxLen_ok:
  assumes "history_ok ls"
  shows "history_ok (snd (LinenoiseHistorySetMaxLen ls n)) \<and>
         history_max_len (snd (LinenoiseHistorySetMaxLen ls n)) =
           (if n < 1 then history_max_len ls else n) \<and>
         history_entries (snd (LinenoiseHistorySetMaxLen ls n)) =
           (if n < 1 then history_entries ls
            else drop (length (history_entries ls) - nat n) (history_entries ls))"
proof (cases "n < 1")
  case True
  with assms show ?thesis
    by (simp add: SetMaxLen_reject)
next
  case n: False
  show ?thesis
  proof (cases "history ls")
    case None
    with assms have z: "history_len ls = 0" by (simp add: history_ok_def)
    show ?thesis
      using n z by (simp add: SetMaxLen_None [OF n None] history_ok_def history_entries_def)
  next
    case (Some h)
    from assms obtain k where k: "history_len ls = int k"
      by (auto simp: history_ok_def elim: nonneg_int_cases)
    from n obtain m where m: "n = int m" and mp: "0 < m"
      by (cases n) auto
    define t where "t = (if m < k then m else k)"
    define ls' where "ls' = ls\<lparr>history := Some (memcpy (\<lambda>i. None) h (k - t) t),
      history_max_len := int m, history_len := int t\<rparr>"
    have r: "LinenoiseHistorySetMaxLen ls n = (1, ls')"
      using SetMaxLen_Some [OF n Some]
      by (simp add: k m ls'_def t_def nat_diff_distrib')
    have en: "history_entries ls = map h [0..<k]"
      using history_entries_Some [OF Some] k by simp
    have "history_entries ls' = map (memcpy (\<lambda>i. None) h (k - t) t) [0..<t]"
      using history_entries_Some [of ls' "memcpy (\<lambda>i. None) h (k - t) t"] by (simp add: ls'_def)
    also have "\<dots> = drop (k - t) (map h [0..<(k - t) + t])"
      by (rule map_memcpy)
    also have "(k - t) + t = k"
      by (simp add: t_def)
    also have "k - t = length (history_entries ls) - nat n"
      by (simp add: en m t_def)
    finally have e': "history_entries ls' = drop (length (history_entries ls) - nat n) (history_entries ls)"
      by (simp add: en)
    have "None \<notin> set (history_entries ls')"
      unfolding e' using assms set_drop_subset [of "length (history_entries ls) - nat n" "history_entries ls"]
      by (auto simp: history_ok_def)
    moreover have "history_len ls' = int t" "history_max_len ls' = n" "history ls' \<noteq> None"
      by (simp_all add: ls'_def m)
    moreover have "int t \<le> n"
      by (simp add: t_def m)
    ultimately have ok': "history_ok ls'"
      by (simp add: history_ok_def)
    show ?thesis
      unfolding r using ok' e' n by (simp add: ls'_def m)
  qed
qed

lemma newest_last:
  assumes "history_entries ls \<noteq> []"
  shows "newest ls = last (history_entries ls)"
proof -
  from assms have p: "0 < nat (history_len ls)"
    by (simp add: history_entries_def)
  then have "last (history_entries ls) = history_slot ls (int (nat (history_len ls) - 1))"
    by (simp add: history_entries_def last_map)
  also have "int (nat (history_len ls) - 1) = history_len ls - 1"
    using p by simp
  finally show ?thesis
    by (simp add: newest_def)
qed

lemma distinct_adj_tl: "distinct_adj xs \<Longrightarrow> distinct_adj (tl xs)"
  by (cases xs) (auto dest: distinct_adj_ConsD)

lemma distinct_adj_drop: "distinct_adj xs \<Longrightarrow> distinct_adj (drop n xs)"
  using distinct_adj_appendD2 [of "take n xs" "drop n xs"] by simp

lemma last_tl_nonempty: "tl xs \<noteq> [] \<Longrightarrow> last (tl xs) = last xs"
  by (cases xs) auto

lemma distinct_adj_snoc:
  "distinct_adj xs \<Longrightarrow> xs = [] \<or> last xs \<noteq> x \<Longrightarrow> distinct_adj (xs @ [x])"
  by (auto simp: distinct_adj_append_iff)

lemma HistoryAdd_distinct_adj:
  assumes "history_ok ls" "distinct_adj (history_entries ls)"
    and "LinenoiseHistoryAdd ls line = Some (r, ls')"
  shows "distinct_adj (history_entries ls')"
proof (cases "history_max_len ls = 0 \<or> newest ls = Some line")
  case True
  with HistoryAdd_ok [OF assms(1), of line] assms(2,3) show ?thesis
    by auto
next
  case False
  with HistoryAdd_ok [OF assms(1), of line] assms(3)
  have e: "history_entries ls' =
      (if history_len ls = history_max_len ls then tl (history_entries ls)
       else history_entries ls) @ [Some line]"
    by auto
  define es where "es = (if history_len ls = history_max_len ls then tl (history_entries ls)
       else history_entries ls)"
  have d: "distinct_adj es"
    using assms(2) by (simp add: es_def distinct_adj_tl)
  have "last es = newest ls" if "es \<noteq> []"
  proof -
    from that have ne: "history_entries ls \<noteq> []"
      by (auto simp: es_def split: if_splits)
    from that have "last es = last (history_entries ls)"
      by (auto simp: es_def last_tl_nonempty split: if_splits)
    with newest_last [OF ne] show ?thesis by simp
  qed
  with False have "es = [] \<or> last es \<noteq> Some line"
    by auto
  from distinct_adj_snoc [OF d this] show ?thesis
    by (simp add: e es_def)
qed

lemma history_calls_inv:
  "history_ok ls \<Longrightarrow> distinct_adj (history_entries ls) \<Longrightarrow>
   \<exists>ls'. history_calls cs ls = Some ls' \<and> history_ok ls' \<and> distinct_adj (history_entries ls')"
proof (induction cs arbitrary: ls)
  case Nil
  then show ?case by simp
next
  case (Cons c cs)
  show ?case
  proof (cases c)
    case (HistoryAdd line)
    from HistoryAdd_ok [OF Cons.prems(1), of line]
    obtain r ls1 where a: "LinenoiseHistoryAdd ls line = Some (r, ls1)" "history_ok ls1"
      by blast
    from HistoryAdd_distinct_adj [OF Cons.prems a(1)] have "distinct_adj (history_entries ls1)" .
    with Cons.IH [of ls1] HistoryAdd a show ?thesis
      by simp
  next
    case (HistorySetMaxLen n)
    from SetMaxLen_ok [OF Cons.prems(1), of n] Cons.prems(2)
    have "history_ok (snd (LinenoiseHistorySetMaxLen ls n))"
      "distinct_adj (history_entries (snd (LinenoiseHistorySetMaxLen ls n)))"
      by (auto simp: distinct_adj_drop)
    with Cons.IH HistorySetMaxLen show ?thesis
      by simp
  qed
qed

text \<open>
  Three calls on the fresh session, whose history is \<^verbatim>\<open>[""]\<close>: add \<^verbatim>\<open>"a"\<close>, set the bound
  to 1 (which keeps \<^verbatim>\<open>"a"\<close>), add \<^verbatim>\<open>"b"\<close> (which evicts \<^verbatim>\<open>"a"\<close>).
\<close>

definition calls0 :: "history_call list" where
  "calls0 = [HistoryAdd ''a'', HistorySetMaxLen 1, HistoryAdd ''b'']"

lemma s0_entries: "history_entries s0 = [Some []]"
  by (simp add: history_entries_def history_slot_def s0_fields s0_history upt_2)

lemma history_ok_s0: "history_ok s0"
  by (simp add: history_ok_def s0_entries s0_fields s0_history)

lemma calls0_first:
  "LinenoiseHistoryAdd s0 ''a'' =
     Some (1, s0\<lparr>history := Some ((\<lambda>i. None)(0 := Some [], 1 := Some ''a'')), history_len := 2\<rparr>)"
  by (simp add: HistoryAdd_Some [OF s0_history] s0_fields history_slot_def s0_history)

lemma calls0_second:
  "snd (LinenoiseHistorySetMaxLen
      (s0\<lparr>history := Some ((\<lambda>i. None)(0 := Some [], 1 := Some ''a'')), history_len := 2\<rparr>) 1) =
     s0\<lparr>history := Some ((\<lambda>i. None)(0 := Some ''a'')), history_max_len := 1, history_len := 1\<rparr>"
proof -
  have "memcpy (\<lambda>i. None) ((\<lambda>i. None)(0 := Some [], 1 := Some ''a'')) 1 1 = (\<lambda>i. None)(0 := Some ''a'')"
    by (simp add: memcpy_def fun_eq_iff)
  then show ?thesis
    by (simp add: SetMaxLen_Some [where h = "(\<lambda>i. None)(0 := Some [], 1 := Some ''a'')"])
qed

lemma calls0_third:
  "LinenoiseHistoryAdd
      (s0\<lparr>history := Some ((\<lambda>i. None)(0 := Some ''a'')), history_max_len := 1, history_len := 1\<rparr>) ''b'' =
     Some (1, s0\<lparr>history := Some ((\<lambda>i. None)(0 := Some ''b'')), history_max_len := 1, history_len := 1\<rparr>)"
proof -
  have "(memmove ((\<lambda>i. None)(0 := Some ''a'')) 0 1 0)(0 := Some ''b'') = (\<lambda>i. None)(0 := Some ''b'')"
    by (simp add: memmove_def fun_eq_iff)
  then show ?thesis
    by (simp add: HistoryAdd_Some [where h = "(\<lambda>i. None)(0 := Some ''a'')"] history_slot_def)
qed

lemma calls0_run:
  "history_calls calls0 s0 =
     Some (s0\<lparr>history := Some ((\<lambda>i. None)(0 := Some ''b'')), history_max_len := 1, history_len := 1\<rparr>)"
  unfolding calls0_def
  by (simp only: history_calls.simps calls0_first calls0_second calls0_third option.case prod.case)

text \<open>
  Claim C5.  Along every sequence of calls of \<^verbatim>\<open>LinenoiseHistoryAdd\<close> and
  \<^verbatim>\<open>LinenoiseHistorySetMaxLen\<close>, from a history within its bound and without two equal
  neighbours, each call returns, the length of the history stays at most
  \<open>history_max_len\<close> and no two neighbours are equal.  A further add of a line equal to the
  newest entry returns 0 and changes nothing; any other add (the bound not being 0) returns 1
  and puts the line last, after the old entries, the oldest of them dropped by the left shift
  when the history was full, so that the newest entry differs from the newest before.
\<close>

theorem history_bounded_no_repeat:
  assumes "history_ok ls0" and "distinct_adj (history_entries ls0)"
  shows "\<exists>ls. history_calls cs ls0 = Some ls \<and> history_len ls \<le> history_max_len ls \<and>
           distinct_adj (history_entries ls) \<and>
           (\<exists>r ls'. LinenoiseHistoryAdd ls line = Some (r, ls') \<and>
              history_len ls' \<le> history_max_len ls' \<and>
              (if history_max_len ls = 0 \<or> newest ls = Some line then r = 0 \<and> ls' = ls
               else r = 1 \<and> newest ls' = Some line \<and> newest ls' \<noteq> newest ls \<and>
                    history_entries ls' =
                      (if history_len ls = history_max_len ls then tl (history_entries ls)
                       else history_entries ls) @ [Some line]))"
proof -
  from history_calls_inv [OF assms, of cs]
  obtain ls where ls: "history_calls cs ls0 = Some ls" "history_ok ls"
    "distinct_adj (history_entries ls)"
    by blast
  from HistoryAdd_ok [OF ls(2), of line]
  obtain r ls' where a: "LinenoiseHistoryAdd ls line = Some (r, ls')" "history_ok ls'"
    "if history_max_len ls = 0 \<or> newest ls = Some line then r = 0 \<and> ls' = ls
     else r = 1 \<and> newest ls' = Some line \<and>
          history_len ls' = (if history_len ls = history_max_len ls then history_len ls
                             else history_len ls + 1) \<and>
          history_entries ls' =
            (if history_len ls = history_max_len ls then tl (history_entries ls)
             else history_entries ls) @ [Some line]"
    by blast
  have "history_len ls \<le> history_max_len ls" "history_len ls' \<le> history_max_len ls'"
    using ls(2) a(2) by (simp_all add: history_ok_def)
  moreover have "if history_max_len ls = 0 \<or> newest ls = Some line then r = 0 \<and> ls' = ls
       else r = 1 \<and> newest ls' = Some line \<and> newest ls' \<noteq> newest ls \<and>
            history_entries ls' =
              (if history_len ls = history_max_len ls then tl (history_entries ls)
               else history_entries ls) @ [Some line]"
    using a(3) by (auto split: if_splits)
  ultimately show ?thesis
    using ls(1,3) a(1) by blast
qed

theorem history_bounded_no_repeat_witness:
  "history_ok s0 \<and> distinct_adj (history_entries s0) \<and>
   (\<exists>ls. history_calls calls0 s0 = Some ls \<and> history_len ls \<le> history_max_len ls \<and>
      history_entries ls = [Some ''b''] \<and> LinenoiseHistoryAdd ls ''b'' = Some (0, ls))"
proof -
  have d: "distinct_adj (history_entries s0)"
    by (simp add: s0_entries)
  define s3 where "s3 = s0\<lparr>history := Some ((\<lambda>i. None)(0 := Some ''b'')), history_max_len := 1,
    history_len := 1\<rparr>"
  have e: "history_entries s3 = [Some ''b'']"
    by (simp add: s3_def history_entries_def history_slot_def upt_2)
  have n: "newest s3 = Some ''b''"
    by (simp add: s3_def newest_def history_slot_def)
  from history_bounded_no_repeat [OF history_ok_s0 d, of calls0 "''b''"] n
  have "history_len s3 \<le> history_max_len s3 \<and> LinenoiseHistoryAdd s3 ''b'' = Some (0, s3)"
    by (auto simp: calls0_run s3_def [symmetric])
  with history_ok_s0 d e show ?thesis
    by (simp add: calls0_run s3_def [symmetric])
qed

end
